theory Spec2Isabelle
  imports Complex_Main "HOL-Library.Multiset"
begin

unbundle bit_operations_syntax

section \<open>Nonparametric Bayes classification for two classes (nbc.cc)\<close>

text \<open>
  A shallow embedding of \<^verbatim>\<open>src/fastlib/u/rriegel/nbc/nbc.cc\<close>.

  \<^item> For the functions that decide, compare and store, a C++ \<^verbatim>\<open>double\<close> is a
    \<^typ>\<open>real\<close>. The arithmetic of \<^verbatim>\<open>MomentInfo\<close> is given a second time with the
    rounding of every operation explicit (subsection "MomentInfo in double arithmetic"):
    what is claimed about the values it computes is settled there. Infinities and NaN are
    not modelled. Where a division by a zero count matters it is written out.
  \<^item> \<^verbatim>\<open>index_t\<close> is an \<^typ>\<open>int\<close> (a signed count of points; its width is
    declared outside \<^verbatim>\<open>nbc.cc\<close>).
  \<^item> A \<^verbatim>\<open>Vector\<close> is a list of reals.
  \<^item> A \<^verbatim>\<open>DEBUG_ASSERT\<close> that fails is the result \<open>Inl (Assertion_failed \<dots>)\<close>.
  \<^item> Out-parameters (\<^verbatim>\<open>Delta*\<close>, \<^verbatim>\<open>GlobalResult*\<close>, \<^verbatim>\<open>QPostponed*\<close>) are passed
    in and returned; \<^verbatim>\<open>const\<close> parameters are only passed in.
  \<^item> Fields of different structs that share a name carry a one-letter prefix
    (\<open>p_\<close> QPostponed, \<open>r_\<close> QResult, \<open>s_\<close> QSummaryResult, \<open>g_\<close> GlobalResult).
\<close>

subsection \<open>Collaborators that \<^verbatim>\<open>nbc.cc\<close> only uses\<close>

type_synonym Vector = "real list"

datatype error = Assertion_failed string

text \<open>Modelled from the spec: \<^verbatim>\<open>DRange\<close> (fastlib) is not in the source; it is a closed
  interval of doubles with fields \<^verbatim>\<open>lo\<close> and \<^verbatim>\<open>hi\<close>.\<close>

record DRange =
  lo :: real
  hi :: real

text \<open>Modelled from the spec: \<^verbatim>\<open>DRange::Init(lo, hi)\<close> and the interval addition
  \<^verbatim>\<open>operator+=\<close> ("interval-add"), with a range and with a scalar.\<close>

definition DRange_Init :: "real \<Rightarrow> real \<Rightarrow> DRange" where
  "DRange_Init l h = \<lparr>lo = l, hi = h\<rparr>"

definition DRange_add :: "DRange \<Rightarrow> DRange \<Rightarrow> DRange" where
  "DRange_add a b = \<lparr>lo = lo a + lo b, hi = hi a + hi b\<rparr>"

definition DRange_add_scalar :: "DRange \<Rightarrow> real \<Rightarrow> DRange" where
  "DRange_add_scalar a d = \<lparr>lo = lo a + d, hi = hi a + d\<rparr>"

text \<open>Modelled from the spec: the linear-algebra helpers \<^verbatim>\<open>la::Dot\<close>, \<^verbatim>\<open>la::AddTo\<close>,
  \<^verbatim>\<open>la::Scale\<close> and \<^verbatim>\<open>la::DistanceSqEuclidean\<close> (fastlib) are not in the source. They
  are the usual component-wise operations on vectors of one length.\<close>

definition Dot :: "Vector \<Rightarrow> Vector \<Rightarrow> real" where
  "Dot x y = sum_list (map2 (*) x y)"

definition AddTo :: "Vector \<Rightarrow> Vector \<Rightarrow> Vector" where
  \<comment> \<open>\<^verbatim>\<open>la::AddTo(x, &y)\<close>: the new value of \<open>y\<close>\<close>
  "AddTo x y = map2 (+) y x"

definition Scale :: "real \<Rightarrow> Vector \<Rightarrow> Vector" where
  "Scale a x = map ((*) a) x"

definition DistanceSqEuclidean :: "Vector \<Rightarrow> Vector \<Rightarrow> real" where
  "DistanceSqEuclidean x y = sum_list (map2 (\<lambda>a b. (a - b)\<^sup>2) x y)"

text \<open>Modelled from the spec: the bound \<^verbatim>\<open>DHrectBound<2>\<close> (fastlib) is not in the source.
  Following section 3 of the specification it is an axis-aligned box, one interval per
  dimension, with the minimum and maximum squared Euclidean distance to a point and to
  another box.\<close>

type_synonym Bound = "DRange list"

definition Contains :: "Bound \<Rightarrow> Vector \<Rightarrow> bool" where
  "Contains b p = (length p = length b \<and> list_all2 (\<lambda>r x. lo r \<le> x \<and> x \<le> hi r) b p)"

definition MinDistanceSq :: "Bound \<Rightarrow> Vector \<Rightarrow> real" where
  "MinDistanceSq b p =
     sum_list (map2 (\<lambda>r x. (max 0 (lo r - x) + max 0 (x - hi r))\<^sup>2) b p)"

definition MaxDistanceSq :: "Bound \<Rightarrow> Vector \<Rightarrow> real" where
  "MaxDistanceSq b p =
     sum_list (map2 (\<lambda>r x. (max (x - lo r) (hi r - x))\<^sup>2) b p)"

definition MinDistanceSq_bound :: "Bound \<Rightarrow> Bound \<Rightarrow> real" where
  "MinDistanceSq_bound b other =
     sum_list (map2 (\<lambda>r s. (max 0 (lo s - hi r) + max 0 (lo r - hi s))\<^sup>2) b other)"

definition MaxDistanceSq_bound :: "Bound \<Rightarrow> Bound \<Rightarrow> real" where
  "MaxDistanceSq_bound b other =
     sum_list (map2 (\<lambda>r s. (max (hi s - lo r) (hi r - lo s))\<^sup>2) b other)"

text \<open>Modelled from the spec: the kernel \<^verbatim>\<open>EpanKernel\<close> (fastlib) is not in the source.
  It is the Epanechnikov kernel named in the header comment of \<^verbatim>\<open>class Nbc\<close>: a
  non-negative function of the squared distance that is zero from the bandwidth on.\<close>

record EpanKernel =
  bandwidth_sq :: real
  inv_bandwidth_sq :: real

definition EpanKernel_Init :: "real \<Rightarrow> EpanKernel" where
  "EpanKernel_Init bandwidth_in =
     \<lparr>bandwidth_sq = bandwidth_in * bandwidth_in,
      inv_bandwidth_sq = 1 / (bandwidth_in * bandwidth_in)\<rparr>"

definition EvalUnnormOnSq :: "EpanKernel \<Rightarrow> real \<Rightarrow> real" where
  "EvalUnnormOnSq k distance_squared =
     (let evaluatee = 1 - distance_squared * inv_bandwidth_sq k
      in if evaluatee > 0 then evaluatee else 0)"

subsection \<open>Points and parameters\<close>

record NbcPoint =
  vec :: Vector
  is_pos :: bool
  point_pi :: real

definition NbcPoint_pi_pos :: "NbcPoint \<Rightarrow> real" where
  "NbcPoint_pi_pos q = point_pi q"

definition NbcPoint_pi_neg :: "NbcPoint \<Rightarrow> real" where
  "NbcPoint_pi_neg q = 1 - point_pi q"

text \<open>\<^verbatim>\<open>struct Param\<close>. The member functions of \<^verbatim>\<open>MomentInfo\<close> read \<^verbatim>\<open>param.kernel\<close>,
  which the struct does not declare (it declares \<^verbatim>\<open>kernel_pos\<close> and \<^verbatim>\<open>kernel_neg\<close>); the
  field \<open>kernel\<close> stands for that member, so that no choice between the two declared
  kernels is made here.\<close>

record Param =
  const_pos :: DRange
  const_neg :: DRange
  kernel_pos :: EpanKernel
  kernel_neg :: EpanKernel
  kernel :: EpanKernel
  dim :: int
  count_all :: int
  param_count_pos :: int
  param_count_neg :: int
  threshold :: real

subsection \<open>MomentInfo\<close>

record MomentInfo =
  mass :: Vector
  sumsq :: real
  count :: int

definition MomentInfo_Reset :: "MomentInfo \<Rightarrow> MomentInfo" where
  "MomentInfo_Reset m = \<lparr>mass = map (\<lambda>_. 0) (mass m), sumsq = 0, count = 0\<rparr>"

definition MomentInfo_Init :: "Param \<Rightarrow> error + MomentInfo" where
  "MomentInfo_Init param =
     (if \<not> dim param > 0 then Inl (Assertion_failed ''param.dim > 0'')
      else Inr (MomentInfo_Reset \<lparr>mass = replicate (nat (dim param)) 0, sumsq = 0, count = 0\<rparr>))"

definition MomentInfo_Add3 :: "MomentInfo \<Rightarrow> int \<Rightarrow> Vector \<Rightarrow> real \<Rightarrow> MomentInfo" where
  "MomentInfo_Add3 m count_in mass_in sumsq_in =
     (if count_in \<noteq> 0
      then m\<lparr>mass := AddTo mass_in (mass m),
             sumsq := sumsq m + sumsq_in,
             count := count m + count_in\<rparr>
      else m)"

definition MomentInfo_Add :: "MomentInfo \<Rightarrow> MomentInfo \<Rightarrow> MomentInfo" where
  "MomentInfo_Add m other = MomentInfo_Add3 m (count other) (mass other) (sumsq other)"

definition ComputeKernelSum :: "Param \<Rightarrow> MomentInfo \<Rightarrow> Vector \<Rightarrow> real" where
  "ComputeKernelSum param m q =
     (let quadratic_term =
            of_int (count m) * Dot q q - 2 * Dot q (mass m) + sumsq m
      in of_int (count m) - quadratic_term * inv_bandwidth_sq (kernel param))"

definition ComputeKernelSum_dist :: "Param \<Rightarrow> MomentInfo \<Rightarrow> real \<Rightarrow> real \<Rightarrow> real" where
  "ComputeKernelSum_dist param m distance_squared center_dot_center =
     (let quadratic_term =
            (distance_squared - center_dot_center) * of_int (count m) + sumsq m
      in - quadratic_term * inv_bandwidth_sq (kernel param) + of_int (count m))"

definition ComputeKernelSumRange :: "Param \<Rightarrow> MomentInfo \<Rightarrow> Bound \<Rightarrow> error + DRange" where
  "ComputeKernelSumRange param m query_bound =
     (let center_dot_center = Dot (mass m) (mass m) / of_int (count m) / of_int (count m)
      in if \<not> count m \<noteq> 0 then Inl (Assertion_failed ''count != 0'')
         else
           let center = Scale (1 / of_int (count m)) (mass m)
           in Inr \<lparr>lo = ComputeKernelSum_dist param m
                          (MaxDistanceSq query_bound center) center_dot_center,
                   hi = ComputeKernelSum_dist param m
                          (MinDistanceSq query_bound center) center_dot_center\<rparr>)"

text \<open>The order in which \<^verbatim>\<open>ComputeKernelSumRange\<close> divides by \<^verbatim>\<open>count\<close> and checks it:
  the initialiser of \<^verbatim>\<open>center_dot_center\<close> divides twice, then comes
  \<^verbatim>\<open>DEBUG_ASSERT(count != 0)\<close>, then \<^verbatim>\<open>1.0 / count\<close>. A failing assertion ends the
  sequence.\<close>

datatype step = Divide_by int | Assert_nonzero int

definition ComputeKernelSumRange_steps :: "MomentInfo \<Rightarrow> step list" where
  "ComputeKernelSumRange_steps m =
     [Divide_by (count m), Divide_by (count m), Assert_nonzero (count m)]
     @ (if \<not> count m \<noteq> 0 then [] else [Divide_by (count m)])"

definition is_empty :: "MomentInfo \<Rightarrow> bool" where
  "is_empty m = (count m = 0)"

subsection \<open>Node statistics and nodes\<close>

record NbcStat =
  moment_info_pos :: MomentInfo
  moment_info_neg :: MomentInfo
  bound_pos :: Bound
  bound_neg :: Bound
  count_pos :: int
  count_neg :: int
  pi_pos :: DRange
  pi_neg :: DRange

text \<open>Modelled from the spec: \<^verbatim>\<open>ThorNode<Bound, Stat>\<close> (THOR) is not in the source;
  \<^verbatim>\<open>nbc.cc\<close> reads its \<^verbatim>\<open>bound()\<close> and its \<^verbatim>\<open>stat()\<close>.\<close>

record ThorNode =
  bound :: Bound
  stat :: NbcStat

subsection \<open>Labels\<close>

definition LAB_NEITHER :: int where "LAB_NEITHER = 0"
definition LAB_POS :: int where "LAB_POS = 1"
definition LAB_NEG :: int where "LAB_NEG = 2"
definition LAB_EITHER :: int where "LAB_EITHER = 3"

subsection \<open>QPostponed, Delta, QResult, QSummaryResult, GlobalResult\<close>

text \<open>\<^verbatim>\<open>struct QPostponed\<close> declares \<^verbatim>\<open>moment_info\<close> and \<^verbatim>\<open>label\<close>; its own
  \<^verbatim>\<open>ApplyPostponed\<close> uses \<^verbatim>\<open>moment_info\<close>, while \<^verbatim>\<open>QResult\<close>, \<^verbatim>\<open>QSummaryResult\<close> and
  \<^verbatim>\<open>Algorithm\<close> read and write \<^verbatim>\<open>moment_info_pos\<close> and \<^verbatim>\<open>moment_info_neg\<close> (the data
  model of the specification). The record carries all three.\<close>

record QPostponed =
  p_moment_info :: MomentInfo
  p_moment_info_pos :: MomentInfo
  p_moment_info_neg :: MomentInfo
  p_label :: int

definition QPostponed_Reset :: "Param \<Rightarrow> QPostponed \<Rightarrow> QPostponed" where
  "QPostponed_Reset param p =
     p\<lparr>p_moment_info := MomentInfo_Reset (p_moment_info p), p_label := LAB_EITHER\<rparr>"

definition QPostponed_ApplyPostponed :: "Param \<Rightarrow> QPostponed \<Rightarrow> QPostponed \<Rightarrow> error + QPostponed" where
  "QPostponed_ApplyPostponed param p other =
     (let label = p_label p AND p_label other
      in if \<not> label \<noteq> LAB_NEITHER then Inl (Assertion_failed ''Conflicting labels?'')
         else Inr (p\<lparr>p_label := label,
                     p_moment_info := MomentInfo_Add (p_moment_info p) (p_moment_info other)\<rparr>))"

record Delta =
  d_density_pos :: DRange
  d_density_neg :: DRange

record QResult =
  r_density_pos :: real
  r_density_neg :: real
  r_label :: int

definition QResult_Init :: "Param \<Rightarrow> QResult" where
  "QResult_Init param = \<lparr>r_density_pos = 0, r_density_neg = 0, r_label = LAB_EITHER\<rparr>"

definition QResult_Postprocess :: "Param \<Rightarrow> QResult \<Rightarrow> NbcPoint \<Rightarrow> error + QResult" where
  "QResult_Postprocess param r q =
     (let label =
        (if lo (const_pos param) * r_density_pos r * NbcPoint_pi_pos q
              > hi (const_neg param) * r_density_neg r * NbcPoint_pi_neg q
         then r_label r AND LAB_POS
         else if lo (const_neg param) * r_density_neg r * NbcPoint_pi_neg q
              > hi (const_pos param) * r_density_pos r * NbcPoint_pi_pos q
         then r_label r AND LAB_NEG
         else r_label r)
      in if \<not> label \<noteq> LAB_NEITHER then Inl (Assertion_failed ''Conflicting labels'')
         else Inr (r\<lparr>r_label := label\<rparr>))"

definition QResult_ApplyPostponed :: "Param \<Rightarrow> QResult \<Rightarrow> QPostponed \<Rightarrow> NbcPoint \<Rightarrow> error + QResult" where
  "QResult_ApplyPostponed param r postponed q =
     (let label = r_label r AND p_label postponed
      in if \<not> label \<noteq> LAB_NEITHER then Inl (Assertion_failed ''label != LAB_NEITHER'')
         else
           let dp = (if \<not> is_empty (p_moment_info_pos postponed)
                     then r_density_pos r
                          + ComputeKernelSum param (p_moment_info_pos postponed) (vec q)
                     else r_density_pos r);
               dn = (if \<not> is_empty (p_moment_info_neg postponed)
                     then r_density_neg r
                          + ComputeKernelSum param (p_moment_info_neg postponed) (vec q)
                     else r_density_neg r)
           in Inr \<lparr>r_density_pos = dp, r_density_neg = dn, r_label = label\<rparr>)"

record QSummaryResult =
  s_density_pos :: DRange
  s_density_neg :: DRange
  s_label :: int

definition QSummaryResult_Init :: "Param \<Rightarrow> QSummaryResult" where
  "QSummaryResult_Init param =
     \<lparr>s_density_pos = DRange_Init 0 0, s_density_neg = DRange_Init 0 0, s_label = LAB_EITHER\<rparr>"

definition ApplySummaryResult :: "Param \<Rightarrow> QSummaryResult \<Rightarrow> QSummaryResult \<Rightarrow> error + QSummaryResult" where
  "ApplySummaryResult param s summary_result =
     (let label = s_label s AND s_label summary_result
      in if \<not> label \<noteq> LAB_NEITHER then Inl (Assertion_failed ''label != LAB_NEITHER'')
         else Inr \<lparr>s_density_pos = DRange_add (s_density_pos s) (s_density_pos summary_result),
                   s_density_neg = DRange_add (s_density_neg s) (s_density_neg summary_result),
                   s_label = label\<rparr>)"

definition ApplyDelta :: "Param \<Rightarrow> QSummaryResult \<Rightarrow> Delta \<Rightarrow> QSummaryResult" where
  "ApplyDelta param s delta =
     s\<lparr>s_density_pos := DRange_add (s_density_pos s) (d_density_pos delta),
       s_density_neg := DRange_add (s_density_neg s) (d_density_neg delta)\<rparr>"

text \<open>\<^verbatim>\<open>QSummaryResult::ApplyPostponed\<close>. The local \<^verbatim>\<open>bool change_made\<close> is declared without
  an initialiser: it is \<open>None\<close> until one of the three branches assigns it, and the
  function returns it as it is.\<close>

definition QSummaryResult_ApplyPostponed ::
  "Param \<Rightarrow> QSummaryResult \<Rightarrow> QPostponed \<Rightarrow> ThorNode \<Rightarrow> error + (QSummaryResult \<times> bool option)" where
  "QSummaryResult_ApplyPostponed param s postponed q_node =
     (let change_made0 = None;
          step1 = (if p_label postponed \<noteq> LAB_EITHER
                   then (let label = s_label s AND p_label postponed
                         in if \<not> label \<noteq> LAB_NEITHER
                            then Inl (Assertion_failed ''label != LAB_NEITHER'')
                            else Inr (s\<lparr>s_label := label\<rparr>, Some True))
                   else Inr (s, change_made0))
      in case step1 of Inl e \<Rightarrow> Inl e
         | Inr (s1, change_made1) \<Rightarrow>
          (let step2 = (if \<not> is_empty (p_moment_info_pos postponed)
                        then (case ComputeKernelSumRange param (p_moment_info_pos postponed)
                                     (bound q_node) of
                                Inl e \<Rightarrow> Inl e
                              | Inr rng \<Rightarrow>
                                  Inr (s1\<lparr>s_density_pos := DRange_add (s_density_pos s1) rng\<rparr>,
                                       Some True))
                        else Inr (s1, change_made1))
           in case step2 of Inl e \<Rightarrow> Inl e
              | Inr (s2, change_made2) \<Rightarrow>
                 (if \<not> is_empty (p_moment_info_neg postponed)
                  then (case ComputeKernelSumRange param (p_moment_info_neg postponed)
                               (bound q_node) of
                          Inl e \<Rightarrow> Inl e
                        | Inr rng \<Rightarrow>
                            Inr (s2\<lparr>s_density_neg := DRange_add (s_density_neg s2) rng\<rparr>,
                                 Some True))
                  else Inr (s2, change_made2))))"

record GlobalResult =
  g_count_pos :: int
  g_count_unknown :: int

subsection \<open>Algorithm\<close>

text \<open>\<^verbatim>\<open>Algorithm::ConsiderPairIntrinsic\<close>. The first argument is the preprocessor switch
  \<^verbatim>\<open>CHECK_POS_NEG_BOUNDS\<close>, which \<^verbatim>\<open>nbc.cc\<close> tests but never defines: \<open>False\<close> is the file
  compiled as it stands. The result carries the \<^verbatim>\<open>bool\<close> the function returns, the three
  objects behind its pointer parameters, and which of its three \<^verbatim>\<open>return\<close> statements was
  taken, named after the debug messages next to them.\<close>

datatype Outcome = Exclusion | Inclusion | Approximate

record Intrinsic_result =
  returned :: bool
  outcome :: Outcome
  delta_out :: Delta
  global_result_out :: GlobalResult
  q_postponed_out :: QPostponed

definition ConsiderPairIntrinsic ::
  "bool \<Rightarrow> Param \<Rightarrow> ThorNode \<Rightarrow> ThorNode \<Rightarrow> Delta \<Rightarrow> GlobalResult \<Rightarrow> QPostponed
   \<Rightarrow> Intrinsic_result" where
  "ConsiderPairIntrinsic check_pos_neg_bounds param q_node r_node delta global_result q_postponed =
     (let d_density_pos_hi =
            (if count_pos (stat r_node) > 0
             then EvalUnnormOnSq (kernel_pos param)
                    (MinDistanceSq_bound (bound_pos (stat r_node)) (bound q_node))
             else 0);
          d_density_neg_hi =
            (if count_neg (stat r_node) > 0
             then EvalUnnormOnSq (kernel_neg param)
                    (MinDistanceSq_bound (bound_neg (stat r_node)) (bound q_node))
             else 0)
      in if d_density_pos_hi = 0 \<and> d_density_neg_hi = 0
         then \<lparr>returned = False, outcome = Exclusion, delta_out = delta,
                global_result_out = global_result, q_postponed_out = q_postponed\<rparr>
         else if (if check_pos_neg_bounds
                  then (count_pos (stat r_node) = 0
                        \<or> MaxDistanceSq_bound (bound_pos (stat r_node)) (bound q_node)
                            < bandwidth_sq (kernel_pos param))
                     \<and> (count_neg (stat r_node) = 0
                        \<or> MaxDistanceSq_bound (bound_neg (stat r_node)) (bound q_node)
                            < bandwidth_sq (kernel_neg param))
                  else MaxDistanceSq_bound (bound r_node) (bound q_node)
                         < bandwidth_sq (kernel_pos param))
         then
           (let p1 = (if count_pos (stat r_node) > 0
                      then q_postponed\<lparr>p_moment_info_pos :=
                             MomentInfo_Add (p_moment_info_pos q_postponed)
                               (moment_info_pos (stat r_node))\<rparr>
                      else q_postponed);
                p2 = (if count_neg (stat r_node) > 0
                      then p1\<lparr>p_moment_info_neg :=
                             MomentInfo_Add (p_moment_info_neg p1)
                               (moment_info_neg (stat r_node))\<rparr>
                      else p1)
            in \<lparr>returned = False, outcome = Inclusion, delta_out = delta,
                 global_result_out = global_result, q_postponed_out = p2\<rparr>)
         else
           (let delta1 = delta\<lparr>d_density_pos :=
                           DRange_Init 0 (of_int (count_pos (stat r_node)) * d_density_pos_hi)\<rparr>;
                delta2 = delta1\<lparr>d_density_neg := (d_density_neg delta1)\<lparr>lo := 0\<rparr>\<rparr>;
                delta3 = delta2\<lparr>d_density_pos := (d_density_pos delta2)\<lparr>hi := 0\<rparr>\<rparr>;
                delta4 = delta3\<lparr>d_density_neg := (d_density_neg delta3)
                           \<lparr>hi := of_int (count_neg (stat r_node)) * d_density_neg_hi\<rparr>\<rparr>
            in \<lparr>returned = True, outcome = Approximate, delta_out = delta4,
                 global_result_out = global_result, q_postponed_out = q_postponed\<rparr>))"

definition ConsiderQueryTermination ::
  "Param \<Rightarrow> ThorNode \<Rightarrow> QSummaryResult \<Rightarrow> GlobalResult \<Rightarrow> QPostponed
   \<Rightarrow> error + (bool \<times> QPostponed)" where
  "ConsiderQueryTermination param q_node q_summary_result global_result q_postponed =
     (if \<not> lo (s_density_pos q_summary_result) < hi (s_density_pos q_summary_result)
      then Inl (Assertion_failed ''density_pos.lo < density_pos.hi'')
      else if \<not> lo (s_density_neg q_summary_result) < hi (s_density_neg q_summary_result)
      then Inl (Assertion_failed ''density_neg.lo < density_neg.hi'')
      else if s_label q_summary_result \<noteq> LAB_EITHER
      then
        (if \<not> (s_label q_summary_result AND p_label q_postponed) \<noteq> LAB_NEITHER
         then Inl (Assertion_failed ''(label & q_postponed->label) != LAB_NEITHER'')
         else Inr (False, q_postponed\<lparr>p_label := s_label q_summary_result\<rparr>))
      else if lo (const_pos param)
                * lo (s_density_pos q_summary_result)
                * lo (pi_pos (stat q_node))
              > hi (const_neg param)
                * hi (s_density_neg q_summary_result)
                * hi (pi_neg (stat q_node))
      then Inr (False, q_postponed\<lparr>p_label := LAB_POS\<rparr>)
      else if lo (const_neg param)
                * lo (s_density_neg q_summary_result)
                * lo (pi_neg (stat q_node))
              > hi (const_pos param)
                * hi (s_density_pos q_summary_result)
                * hi (pi_pos (stat q_node))
      then Inr (False, q_postponed\<lparr>p_label := LAB_NEG\<rparr>)
      else Inr (True, q_postponed))"

subsection \<open>MomentInfo in double arithmetic\<close>

text \<open>IEEE 754 binary64 rounding, to nearest with ties to even, of a real number: the
  exponent of \<open>x\<close> is found by halving or doubling, clipped at the subnormal exponent
  \<open>-1022\<close>, and \<open>x\<close> is rounded to a multiple of the unit in the last of 53 places.
  Overflow to infinity (from \<open>2^1024\<close> on) is not modelled.\<close>

definition round_half_even :: "real \<Rightarrow> int" where
  "round_half_even m =
     (let f = \<lfloor>m\<rfloor>
      in if m - of_int f < 1/2 then f
         else if m - of_int f > 1/2 then f + 1
         else if even f then f else f + 1)"

fun binary_exponent :: "nat \<Rightarrow> real \<Rightarrow> int" where
  "binary_exponent 0 x = 0"
| "binary_exponent (Suc n) x =
     (if 2 \<le> x then binary_exponent n (x / 2) + 1
      else if x < 1 then binary_exponent n (x * 2) - 1
      else 0)"

definition double_ulp :: "real \<Rightarrow> real" where
  "double_ulp x =
     (let e = max (binary_exponent 2200 \<bar>x\<bar>) (- 1022) - 52
      in if 0 \<le> e then 2 ^ nat e else 1 / 2 ^ nat (- e))"

definition double_round :: "real \<Rightarrow> real" where
  "double_round x =
     (if x = 0 then 0
      else sgn x * of_int (round_half_even (\<bar>x\<bar> / double_ulp x)) * double_ulp x)"

text \<open>The functions of \<^verbatim>\<open>struct MomentInfo\<close> once more, with the rounding \<open>fl\<close> applied to the
  result of every arithmetic operation and of the conversion of \<^verbatim>\<open>count\<close> to \<^verbatim>\<open>double\<close>:
  \<open>fl = double_round\<close> is the program, \<open>fl = (\<lambda>x. x)\<close> is exact arithmetic. The operands
  are grouped as C++ groups them: \<^verbatim>\<open>a - b + c\<close> is \<open>(a - b) + c\<close>, \<^verbatim>\<open>x / count / count\<close> is
  \<open>(x / count) / count\<close>, \<^verbatim>\<open>-q * w + count\<close> is \<open>((-q) * w) + count\<close>.

  Modelled from the spec: the helpers of fastlib are not in the source; \<^verbatim>\<open>la::Dot\<close> and the
  distances of the bound accumulate their sum from zero, one term per dimension,
  \<^verbatim>\<open>la::AddTo\<close> and \<^verbatim>\<open>la::Scale\<close> work component by component.\<close>

definition Dot_fl :: "(real \<Rightarrow> real) \<Rightarrow> Vector \<Rightarrow> Vector \<Rightarrow> real" where
  "Dot_fl fl x y = foldl (\<lambda>acc (a, b). fl (acc + fl (a * b))) 0 (zip x y)"

definition AddTo_fl :: "(real \<Rightarrow> real) \<Rightarrow> Vector \<Rightarrow> Vector \<Rightarrow> Vector" where
  "AddTo_fl fl x y = map2 (\<lambda>b a. fl (b + a)) y x"

definition Scale_fl :: "(real \<Rightarrow> real) \<Rightarrow> real \<Rightarrow> Vector \<Rightarrow> Vector" where
  "Scale_fl fl a x = map (\<lambda>b. fl (a * b)) x"

definition MinDistanceSq_fl :: "(real \<Rightarrow> real) \<Rightarrow> Bound \<Rightarrow> Vector \<Rightarrow> real" where
  "MinDistanceSq_fl fl b p =
     foldl (\<lambda>acc (r, x).
              let v = fl (max 0 (fl (lo r - x)) + max 0 (fl (x - hi r)))
              in fl (acc + fl (v * v))) 0 (zip b p)"

definition MaxDistanceSq_fl :: "(real \<Rightarrow> real) \<Rightarrow> Bound \<Rightarrow> Vector \<Rightarrow> real" where
  "MaxDistanceSq_fl fl b p =
     foldl (\<lambda>acc (r, x).
              let v = max (fl (x - lo r)) (fl (hi r - x))
              in fl (acc + fl (v * v))) 0 (zip b p)"

definition MomentInfo_Add3_fl ::
  "(real \<Rightarrow> real) \<Rightarrow> MomentInfo \<Rightarrow> int \<Rightarrow> Vector \<Rightarrow> real \<Rightarrow> MomentInfo" where
  "MomentInfo_Add3_fl fl m count_in mass_in sumsq_in =
     (if count_in \<noteq> 0
      then m\<lparr>mass := AddTo_fl fl mass_in (mass m),
             sumsq := fl (sumsq m + sumsq_in),
             count := count m + count_in\<rparr>
      else m)"

definition MomentInfo_Add_fl :: "(real \<Rightarrow> real) \<Rightarrow> MomentInfo \<Rightarrow> MomentInfo \<Rightarrow> MomentInfo" where
  "MomentInfo_Add_fl fl m other =
     MomentInfo_Add3_fl fl m (count other) (mass other) (sumsq other)"

text \<open>Merging a collection into a target, one \<^verbatim>\<open>Add\<close> after the other, as
  \<^verbatim>\<open>NbcStat::Accumulate\<close> does with the statistics of a node's children.\<close>

definition MomentInfo_Add_all :: "(real \<Rightarrow> real) \<Rightarrow> MomentInfo \<Rightarrow> MomentInfo list \<Rightarrow> MomentInfo" where
  "MomentInfo_Add_all fl m others = foldl (MomentInfo_Add_fl fl) m others"

definition ComputeKernelSum_fl :: "(real \<Rightarrow> real) \<Rightarrow> Param \<Rightarrow> MomentInfo \<Rightarrow> Vector \<Rightarrow> real" where
  "ComputeKernelSum_fl fl param m q =
     (let n = fl (of_int (count m));
          quadratic_term =
            fl (fl (fl (n * Dot_fl fl q q) - fl (2 * Dot_fl fl q (mass m))) + sumsq m)
      in fl (n - fl (quadratic_term * inv_bandwidth_sq (kernel param))))"

definition ComputeKernelSum_dist_fl ::
  "(real \<Rightarrow> real) \<Rightarrow> Param \<Rightarrow> MomentInfo \<Rightarrow> real \<Rightarrow> real \<Rightarrow> real" where
  "ComputeKernelSum_dist_fl fl param m distance_squared center_dot_center =
     (let n = fl (of_int (count m));
          quadratic_term = fl (fl (fl (distance_squared - center_dot_center) * n) + sumsq m)
      in fl (fl (- quadratic_term * inv_bandwidth_sq (kernel param)) + n))"

definition ComputeKernelSumRange_fl ::
  "(real \<Rightarrow> real) \<Rightarrow> Param \<Rightarrow> MomentInfo \<Rightarrow> Bound \<Rightarrow> error + DRange" where
  "ComputeKernelSumRange_fl fl param m query_bound =
     (let n = fl (of_int (count m));
          center_dot_center = fl (fl (Dot_fl fl (mass m) (mass m) / n) / n)
      in if \<not> count m \<noteq> 0 then Inl (Assertion_failed ''count != 0'')
         else
           let center = Scale_fl fl (fl (1 / n)) (mass m)
           in Inr \<lparr>lo = ComputeKernelSum_dist_fl fl param m
                          (MaxDistanceSq_fl fl query_bound center) center_dot_center,
                   hi = ComputeKernelSum_dist_fl fl param m
                          (MinDistanceSq_fl fl query_bound center) center_dot_center\<rparr>)"

text \<open>A MomentInfo whose \<open>mass\<close> and \<open>sumsq\<close> are values of the rounded arithmetic.\<close>

definition MomentInfo_rounded :: "(real \<Rightarrow> real) \<Rightarrow> MomentInfo \<Rightarrow> bool" where
  "MomentInfo_rounded fl m = (list_all (\<lambda>x. fl x = x) (mass m) \<and> fl (sumsq m) = sumsq m)"

subsection \<open>The data-model invariant of MomentInfo\<close>

text \<open>Section 3 of the specification: \<open>count\<close> is not negative, \<open>mass\<close> is the sum of the
  contributing points (vectors of \<open>d\<close> coordinates) and \<open>sumsq\<close> the sum of their squared
  norms; with no contributing point both are zero, which is the state \<^verbatim>\<open>Reset\<close> leaves.\<close>

definition MomentInfo_inv :: "nat \<Rightarrow> MomentInfo \<Rightarrow> bool" where
  "MomentInfo_inv d m =
     (length (mass m) = d \<and> 0 \<le> count m
      \<and> (count m = 0 \<longrightarrow> mass m = replicate d 0 \<and> sumsq m = 0))"

subsection \<open>Concrete inputs\<close>

text \<open>One-dimensional data: a parameter set with the two bandwidths given, the moment
  information of a single point at \<open>x\<close>, the empty moment information, and a node whose
  box is \<open>[a, b]\<close> with one positive point at \<open>a\<close> and one negative point at \<open>b\<close>.\<close>

definition example_param :: "real \<Rightarrow> real \<Rightarrow> Param" where
  "example_param h_pos h_neg =
     \<lparr>const_pos = \<lparr>lo = 1, hi = 1\<rparr>, const_neg = \<lparr>lo = 1, hi = 1\<rparr>,
      kernel_pos = EpanKernel_Init h_pos, kernel_neg = EpanKernel_Init h_neg,
      kernel = EpanKernel_Init h_pos,
      dim = 1, count_all = 2, param_count_pos = 1, param_count_neg = 1, threshold = 1/2\<rparr>"

definition example_point_info :: "real \<Rightarrow> MomentInfo" where
  "example_point_info x = \<lparr>mass = [x], sumsq = x * x, count = 1\<rparr>"

definition example_empty_info :: MomentInfo where
  "example_empty_info = \<lparr>mass = [0], sumsq = 0, count = 0\<rparr>"

definition example_node :: "real \<Rightarrow> real \<Rightarrow> ThorNode" where
  "example_node a b =
     \<lparr>bound = [\<lparr>lo = a, hi = b\<rparr>],
      stat = \<lparr>moment_info_pos = example_point_info a, moment_info_neg = example_point_info b,
              bound_pos = [\<lparr>lo = a, hi = a\<rparr>], bound_neg = [\<lparr>lo = b, hi = b\<rparr>],
              count_pos = 1, count_neg = 1,
              pi_pos = \<lparr>lo = 1/2, hi = 1/2\<rparr>, pi_neg = \<lparr>lo = 1/2, hi = 1/2\<rparr>\<rparr>\<rparr>"

definition example_delta :: Delta where
  "example_delta = \<lparr>d_density_pos = \<lparr>lo = 7, hi = 7\<rparr>, d_density_neg = \<lparr>lo = 7, hi = 7\<rparr>\<rparr>"

definition example_global :: GlobalResult where
  "example_global = \<lparr>g_count_pos = 0, g_count_unknown = 0\<rparr>"

definition example_postponed :: "int \<Rightarrow> QPostponed" where
  "example_postponed l =
     \<lparr>p_moment_info = example_empty_info, p_moment_info_pos = example_empty_info,
      p_moment_info_neg = example_empty_info, p_label = l\<rparr>"

text \<open>The moment information of the three points \<open>0\<close>, \<open>1/2\<close>, \<open>1/2\<close>, and that of a single
  point at \<open>2^-53\<close>.\<close>

definition example_three_points :: MomentInfo where
  "example_three_points = \<lparr>mass = [1], sumsq = 1/2, count = 3\<rparr>"

definition example_tiny_info :: MomentInfo where
  "example_tiny_info = \<lparr>mass = [1 / 2 ^ 53], sumsq = 1 / 2 ^ 106, count = 1\<rparr>"

definition example_summary :: "int \<Rightarrow> QSummaryResult" where
  "example_summary l =
     \<lparr>s_density_pos = \<lparr>lo = 2, hi = 3\<rparr>, s_density_neg = \<lparr>lo = 0, hi = 1\<rparr>, s_label = l\<rparr>"

section \<open>Properties\<close>

lemmas Label_defs = LAB_NEITHER_def LAB_POS_def LAB_NEG_def LAB_EITHER_def

lemmas example_defs = example_param_def example_point_info_def example_empty_info_def
  example_node_def example_delta_def example_global_def example_postponed_def
  example_summary_def

lemmas geometry_defs = MinDistanceSq_bound_def MaxDistanceSq_bound_def EvalUnnormOnSq_def
  EpanKernel_Init_def DRange_Init_def

subsection \<open>ConsiderPairIntrinsic\<close>

text \<open>What the Approximate branch leaves in \<^verbatim>\<open>*delta\<close>, for both settings of the switch: the
  statement \<^verbatim>\<open>delta->d_density_pos.hi = delta->d_density_neg.lo = 0;\<close> resets the upper end
  that \<^verbatim>\<open>Init\<close> has just stored.\<close>

lemma ConsiderPairIntrinsic_Approximate_delta:
  assumes "returned (ConsiderPairIntrinsic c param q_node r_node delta g p)"
  shows "d_density_pos (delta_out (ConsiderPairIntrinsic c param q_node r_node delta g p))
           = \<lparr>lo = 0, hi = 0\<rparr>"
    and "d_density_neg (delta_out (ConsiderPairIntrinsic c param q_node r_node delta g p))
           = \<lparr>lo = 0, hi = of_int (count_neg (stat r_node)) *
                (if count_neg (stat r_node) > 0
                 then EvalUnnormOnSq (kernel_neg param)
                        (MinDistanceSq_bound (bound_neg (stat r_node)) (bound q_node))
                 else 0)\<rparr>"
  using assms
  by (auto simp: ConsiderPairIntrinsic_def Let_def DRange_Init_def split: if_splits)

text \<open>
  Claim C1. On the Approximate outcome the Delta should be
  \<open>d_density_pos = [0, count_pos * kernel_upper_bound_pos]\<close> and
  \<open>d_density_neg = [0, count_neg * kernel_upper_bound_neg]\<close>.

  The code does not do this for the positive class. With both bandwidths 1, a reference
  node holding one positive and one negative point at 0 and a query box \<open>[0, 2]\<close>, the
  outcome is Approximate, \<open>count_pos * kernel_upper_bound_pos\<close> is 1, and the Delta
  returned has \<open>d_density_pos = [0, 0]\<close>.
\<close>

theorem ConsiderPairIntrinsic_delta_pos_hi_zeroed:
  "returned (ConsiderPairIntrinsic False (example_param 1 1) (example_node 0 2) (example_node 0 0)
       example_delta example_global (example_postponed LAB_EITHER))
   \<and> outcome (ConsiderPairIntrinsic False (example_param 1 1) (example_node 0 2) (example_node 0 0)
       example_delta example_global (example_postponed LAB_EITHER)) = Approximate
   \<and> d_density_pos (delta_out (ConsiderPairIntrinsic False (example_param 1 1) (example_node 0 2)
       (example_node 0 0) example_delta example_global (example_postponed LAB_EITHER)))
       = \<lparr>lo = 0, hi = 0\<rparr>
   \<and> of_int (count_pos (stat (example_node 0 0)))
       * EvalUnnormOnSq (kernel_pos (example_param 1 1))
           (MinDistanceSq_bound (bound_pos (stat (example_node 0 0))) (bound (example_node 0 2)))
       = 1"
  by (simp add: ConsiderPairIntrinsic_def example_defs geometry_defs Let_def)

text \<open>
  Claim C2. ConsiderPairIntrinsic declares Exclusion if and only if both classes' upper
  bounds on the kernel value at the minimum squared distance between the class's
  reference Bound and the query Bound are zero; a class whose reference count is not
  positive has upper bound zero. When both are zero the function returns false (the
  caller does not recurse) and leaves \<^verbatim>\<open>*delta\<close>, \<^verbatim>\<open>*q_postponed\<close> and \<^verbatim>\<open>*global_result\<close> as
  they were (the pair contributes nothing). When one of them is not zero the function
  goes on to the Inclusion test: it returns true when that test fails and takes the
  Inclusion path when it holds. This is so for both settings of the switch.
\<close>

theorem ConsiderPairIntrinsic_Exclusion_iff:
  "((outcome (ConsiderPairIntrinsic c param q_node r_node delta g p) = Exclusion)
     = ((if count_pos (stat r_node) > 0
         then EvalUnnormOnSq (kernel_pos param)
                (MinDistanceSq_bound (bound_pos (stat r_node)) (bound q_node))
         else 0) = 0
      \<and> (if count_neg (stat r_node) > 0
         then EvalUnnormOnSq (kernel_neg param)
                (MinDistanceSq_bound (bound_neg (stat r_node)) (bound q_node))
         else 0) = 0))
   \<and> ((if count_pos (stat r_node) > 0
        then EvalUnnormOnSq (kernel_pos param)
               (MinDistanceSq_bound (bound_pos (stat r_node)) (bound q_node))
        else 0) = 0
      \<and> (if count_neg (stat r_node) > 0
        then EvalUnnormOnSq (kernel_neg param)
               (MinDistanceSq_bound (bound_neg (stat r_node)) (bound q_node))
        else 0) = 0
      \<longrightarrow> \<not> returned (ConsiderPairIntrinsic c param q_node r_node delta g p)
        \<and> delta_out (ConsiderPairIntrinsic c param q_node r_node delta g p) = delta
        \<and> q_postponed_out (ConsiderPairIntrinsic c param q_node r_node delta g p) = p
        \<and> global_result_out (ConsiderPairIntrinsic c param q_node r_node delta g p) = g)
   \<and> (\<not> ((if count_pos (stat r_node) > 0
            then EvalUnnormOnSq (kernel_pos param)
                   (MinDistanceSq_bound (bound_pos (stat r_node)) (bound q_node))
            else 0) = 0
          \<and> (if count_neg (stat r_node) > 0
            then EvalUnnormOnSq (kernel_neg param)
                   (MinDistanceSq_bound (bound_neg (stat r_node)) (bound q_node))
            else 0) = 0)
      \<longrightarrow> (if (if c
               then (count_pos (stat r_node) = 0
                     \<or> MaxDistanceSq_bound (bound_pos (stat r_node)) (bound q_node)
                         < bandwidth_sq (kernel_pos param))
                  \<and> (count_neg (stat r_node) = 0
                     \<or> MaxDistanceSq_bound (bound_neg (stat r_node)) (bound q_node)
                         < bandwidth_sq (kernel_neg param))
               else MaxDistanceSq_bound (bound r_node) (bound q_node)
                      < bandwidth_sq (kernel_pos param))
           then outcome (ConsiderPairIntrinsic c param q_node r_node delta g p) = Inclusion
              \<and> \<not> returned (ConsiderPairIntrinsic c param q_node r_node delta g p)
           else outcome (ConsiderPairIntrinsic c param q_node r_node delta g p) = Approximate
              \<and> returned (ConsiderPairIntrinsic c param q_node r_node delta g p)))"
  by (simp add: ConsiderPairIntrinsic_def Let_def)

theorem ConsiderPairIntrinsic_Exclusion_iff_witness:
  "outcome (ConsiderPairIntrinsic False (example_param 1 1) (example_node 5 6) (example_node 0 0)
       example_delta example_global (example_postponed LAB_EITHER)) = Exclusion
   \<and> \<not> returned (ConsiderPairIntrinsic False (example_param 1 1) (example_node 5 6)
       (example_node 0 0) example_delta example_global (example_postponed LAB_EITHER))
   \<and> delta_out (ConsiderPairIntrinsic False (example_param 1 1) (example_node 5 6)
       (example_node 0 0) example_delta example_global (example_postponed LAB_EITHER))
       = example_delta
   \<and> q_postponed_out (ConsiderPairIntrinsic False (example_param 1 1) (example_node 5 6)
       (example_node 0 0) example_delta example_global (example_postponed LAB_EITHER))
       = example_postponed LAB_EITHER
   \<and> returned (ConsiderPairIntrinsic False (example_param 1 1) (example_node 0 2)
       (example_node 0 0) example_delta example_global (example_postponed LAB_EITHER))"
proof -
  have zero: "(if count_pos (stat (example_node 0 0)) > 0
        then EvalUnnormOnSq (kernel_pos (example_param 1 1))
               (MinDistanceSq_bound (bound_pos (stat (example_node 0 0))) (bound (example_node 5 6)))
        else 0) = 0
      \<and> (if count_neg (stat (example_node 0 0)) > 0
        then EvalUnnormOnSq (kernel_neg (example_param 1 1))
               (MinDistanceSq_bound (bound_neg (stat (example_node 0 0))) (bound (example_node 5 6)))
        else 0) = 0"
    by (simp add: example_defs geometry_defs)
  have nonzero: "\<not> ((if count_pos (stat (example_node 0 0)) > 0
        then EvalUnnormOnSq (kernel_pos (example_param 1 1))
               (MinDistanceSq_bound (bound_pos (stat (example_node 0 0))) (bound (example_node 0 2)))
        else 0) = 0
      \<and> (if count_neg (stat (example_node 0 0)) > 0
        then EvalUnnormOnSq (kernel_neg (example_param 1 1))
               (MinDistanceSq_bound (bound_neg (stat (example_node 0 0))) (bound (example_node 0 2)))
        else 0) = 0)"
    by (simp add: example_defs geometry_defs)
  have far: "\<not> MaxDistanceSq_bound (bound (example_node 0 0)) (bound (example_node 0 2))
               < bandwidth_sq (kernel_pos (example_param 1 1))"
    by (simp add: example_defs geometry_defs)
  from zero ConsiderPairIntrinsic_Exclusion_iff [of False "example_param 1 1" "example_node 5 6"
      "example_node 0 0" example_delta example_global "example_postponed LAB_EITHER"]
  have 1: "outcome (ConsiderPairIntrinsic False (example_param 1 1) (example_node 5 6)
       (example_node 0 0) example_delta example_global (example_postponed LAB_EITHER)) = Exclusion
   \<and> \<not> returned (ConsiderPairIntrinsic False (example_param 1 1) (example_node 5 6)
       (example_node 0 0) example_delta example_global (example_postponed LAB_EITHER))
   \<and> delta_out (ConsiderPairIntrinsic False (example_param 1 1) (example_node 5 6)
       (example_node 0 0) example_delta example_global (example_postponed LAB_EITHER))
       = example_delta
   \<and> q_postponed_out (ConsiderPairIntrinsic False (example_param 1 1) (example_node 5 6)
       (example_node 0 0) example_delta example_global (example_postponed LAB_EITHER))
       = example_postponed LAB_EITHER"
    by blast
  from nonzero far ConsiderPairIntrinsic_Exclusion_iff [of False "example_param 1 1"
      "example_node 0 2" "example_node 0 0" example_delta example_global
      "example_postponed LAB_EITHER"]
  have 2: "returned (ConsiderPairIntrinsic False (example_param 1 1) (example_node 0 2)
       (example_node 0 0) example_delta example_global (example_postponed LAB_EITHER))"
    by simp
  from 1 2 show ?thesis by blast
qed

text \<open>With \<^verbatim>\<open>CHECK_POS_NEG_BOUNDS\<close> defined, Inclusion compares each class's own Bound with
  that class's own bandwidth.\<close>

lemma ConsiderPairIntrinsic_per_class_inclusion:
  assumes "outcome (ConsiderPairIntrinsic True param q_node r_node delta g p) = Inclusion"
  shows "count_pos (stat r_node) > 0 \<longrightarrow>
           MaxDistanceSq_bound (bound_pos (stat r_node)) (bound q_node)
             < bandwidth_sq (kernel_pos param)"
    and "count_neg (stat r_node) > 0 \<longrightarrow>
           MaxDistanceSq_bound (bound_neg (stat r_node)) (bound q_node)
             < bandwidth_sq (kernel_neg param)"
  using assms
  by (auto simp: ConsiderPairIntrinsic_def Let_def split: if_splits)

text \<open>In the file as compiled, Inclusion means that the node's Bound is within the positive
  bandwidth; a positive Bound that lies inside the node's Bound is then within it too. So
  the positive class meets its own bandwidth, and the negative class is measured against
  the positive one.\<close>

lemma MaxDistanceSq_bound_mono:
  assumes "list_all2 (\<lambda>r r'. lo r' \<le> lo r \<and> lo r \<le> hi r \<and> hi r \<le> hi r') b b'"
      and "list_all2 (\<lambda>r' s. lo s \<le> hi s) b' q"
  shows "MaxDistanceSq_bound b q \<le> MaxDistanceSq_bound b' q"
  using assms unfolding MaxDistanceSq_bound_def
proof (induction b b' arbitrary: q rule: list_all2_induct)
  case Nil
  then show ?case by simp
next
  case (Cons r b r' b')
  from Cons.prems obtain s qs where q: "q = s # qs" "lo s \<le> hi s"
      "list_all2 (\<lambda>r' s. lo s \<le> hi s) b' qs"
    by (cases q) auto
  have "\<bar>max (hi s - lo r) (hi r - lo s)\<bar> \<le> \<bar>max (hi s - lo r') (hi r' - lo s)\<bar>"
    using Cons.hyps(1) q(2) by (auto simp: max_def abs_if)
  then have "(max (hi s - lo r) (hi r - lo s))\<^sup>2 \<le> (max (hi s - lo r') (hi r' - lo s))\<^sup>2"
    by (simp only: abs_le_square_iff)
  with Cons.IH[OF q(3)] q(1) show ?case by (simp add: add_mono)
qed

lemma ConsiderPairIntrinsic_inclusion_pos_class:
  assumes "outcome (ConsiderPairIntrinsic False param q_node r_node delta g p) = Inclusion"
      and "list_all2 (\<lambda>r r'. lo r' \<le> lo r \<and> lo r \<le> hi r \<and> hi r \<le> hi r')
             (bound_pos (stat r_node)) (bound r_node)"
      and "list_all2 (\<lambda>r' s. lo s \<le> hi s) (bound r_node) (bound q_node)"
  shows "MaxDistanceSq_bound (bound_pos (stat r_node)) (bound q_node)
           < bandwidth_sq (kernel_pos param)"
proof -
  from assms(1) have "MaxDistanceSq_bound (bound r_node) (bound q_node)
                        < bandwidth_sq (kernel_pos param)"
    by (auto simp: ConsiderPairIntrinsic_def Let_def split: if_splits)
  with MaxDistanceSq_bound_mono[OF assms(2,3)] show ?thesis by linarith
qed

text \<open>
  Claim C3. A class should be resolved by Inclusion only when the maximum squared
  distance between that class's reference Bound and the query Bound is below that
  class's own squared bandwidth.

  As the file is compiled, the only test is the node's Bound against the bandwidth of
  the positive kernel. With bandwidths 2 (positive) and 1 (negative), a reference node
  holding one point of each class at 0 and a query box \<open>[1/2, 3/2]\<close>, the outcome is
  Inclusion and the negative MomentInfo is folded into the Postponed, although the
  maximum squared distance of the negative Bound, \<open>9/4\<close>, is above the negative kernel's
  squared bandwidth, 1.
\<close>

theorem ConsiderPairIntrinsic_includes_neg_beyond_bandwidth:
  "outcome (ConsiderPairIntrinsic False (example_param 2 1) (example_node (1/2) (3/2))
       (example_node 0 0) example_delta example_global (example_postponed LAB_EITHER)) = Inclusion
   \<and> \<not> returned (ConsiderPairIntrinsic False (example_param 2 1) (example_node (1/2) (3/2))
       (example_node 0 0) example_delta example_global (example_postponed LAB_EITHER))
   \<and> p_moment_info_neg (q_postponed_out (ConsiderPairIntrinsic False (example_param 2 1)
       (example_node (1/2) (3/2)) (example_node 0 0) example_delta example_global
       (example_postponed LAB_EITHER)))
       = MomentInfo_Add example_empty_info (moment_info_neg (stat (example_node 0 0)))
   \<and> MomentInfo_Add example_empty_info (moment_info_neg (stat (example_node 0 0)))
       \<noteq> example_empty_info
   \<and> MaxDistanceSq_bound (bound_neg (stat (example_node 0 0))) (bound (example_node (1/2) (3/2)))
       = 9/4
   \<and> bandwidth_sq (kernel_neg (example_param 2 1)) = 1"
  by (simp add: ConsiderPairIntrinsic_def example_defs geometry_defs Let_def
      MomentInfo_Add_def MomentInfo_Add3_def AddTo_def power2_eq_square)

text \<open>
  Claim C9. ConsiderPairIntrinsic never changes \<^verbatim>\<open>*global_result\<close>; it leaves \<^verbatim>\<open>*delta\<close> as
  it was whenever it returns false; it changes \<^verbatim>\<open>*q_postponed\<close> only on the Inclusion
  path, where it returns false; on Exclusion it changes neither; and it returns true
  exactly on the Approximate outcome. The nodes and the parameters are \<^verbatim>\<open>const\<close>
  references: they are arguments of the function and no part of its result.
\<close>

theorem ConsiderPairIntrinsic_frame:
  "global_result_out (ConsiderPairIntrinsic c param q_node r_node delta g p) = g
   \<and> (\<not> returned (ConsiderPairIntrinsic c param q_node r_node delta g p)
        \<longrightarrow> delta_out (ConsiderPairIntrinsic c param q_node r_node delta g p) = delta)
   \<and> (q_postponed_out (ConsiderPairIntrinsic c param q_node r_node delta g p) \<noteq> p
        \<longrightarrow> outcome (ConsiderPairIntrinsic c param q_node r_node delta g p) = Inclusion
          \<and> \<not> returned (ConsiderPairIntrinsic c param q_node r_node delta g p))
   \<and> (outcome (ConsiderPairIntrinsic c param q_node r_node delta g p) = Exclusion
        \<longrightarrow> delta_out (ConsiderPairIntrinsic c param q_node r_node delta g p) = delta
          \<and> q_postponed_out (ConsiderPairIntrinsic c param q_node r_node delta g p) = p)
   \<and> (returned (ConsiderPairIntrinsic c param q_node r_node delta g p)
        = (outcome (ConsiderPairIntrinsic c param q_node r_node delta g p) = Approximate))"
  by (simp add: ConsiderPairIntrinsic_def Let_def)

theorem ConsiderPairIntrinsic_frame_witness:
  "\<not> returned (ConsiderPairIntrinsic False (example_param 2 1) (example_node (1/2) (3/2))
       (example_node 0 0) example_delta example_global (example_postponed LAB_EITHER))
   \<and> delta_out (ConsiderPairIntrinsic False (example_param 2 1) (example_node (1/2) (3/2))
       (example_node 0 0) example_delta example_global (example_postponed LAB_EITHER))
       = example_delta
   \<and> global_result_out (ConsiderPairIntrinsic False (example_param 2 1) (example_node (1/2) (3/2))
       (example_node 0 0) example_delta example_global (example_postponed LAB_EITHER))
       = example_global"
proof -
  have h: "\<not> returned (ConsiderPairIntrinsic False (example_param 2 1) (example_node (1/2) (3/2))
       (example_node 0 0) example_delta example_global (example_postponed LAB_EITHER))"
    by (simp add: ConsiderPairIntrinsic_def example_defs geometry_defs Let_def power2_eq_square)
  from h ConsiderPairIntrinsic_frame [of False "example_param 2 1" "example_node (1/2) (3/2)"
      "example_node 0 0" example_delta example_global "example_postponed LAB_EITHER"]
  show ?thesis by blast
qed

subsection \<open>ConsiderQueryTermination\<close>

text \<open>The three assertions of the function are the only way it fails.\<close>

lemma ConsiderQueryTermination_assertions:
  "(\<exists>e. ConsiderQueryTermination param q_node s g qp = Inl e)
     = (\<not> lo (s_density_pos s) < hi (s_density_pos s)
        \<or> \<not> lo (s_density_neg s) < hi (s_density_neg s)
        \<or> (s_label s \<noteq> LAB_EITHER \<and> s_label s AND p_label qp = LAB_NEITHER))"
  by (simp add: ConsiderQueryTermination_def)

text \<open>On intervals that are ordered and not negative the two dominance inequalities
  exclude each other, so the order in which the function tests them does not matter
  there.\<close>

lemma dominance_exclusive:
  fixes cpl cph dpl dph ppl pph cnl cnh dnl dnh pnl pnh :: real
  assumes "0 \<le> cpl" "cpl \<le> cph" "0 \<le> dpl" "dpl \<le> dph" "0 \<le> ppl" "ppl \<le> pph"
      and "0 \<le> cnl" "cnl \<le> cnh" "0 \<le> dnl" "dnl \<le> dnh" "0 \<le> pnl" "pnl \<le> pnh"
  shows "\<not> (cpl * dpl * ppl > cnh * dnh * pnh \<and> cnl * dnl * pnl > cph * dph * pph)"
proof -
  have "cpl * dpl * ppl \<le> cph * dph * pph"
    using assms by (intro mult_mono) auto
  moreover have "cnl * dnl * pnl \<le> cnh * dnh * pnh"
    using assms by (intro mult_mono) auto
  ultimately show ?thesis by linarith
qed



subsection \<open>Labels\<close>

lemma label_and_pos: "(1::int) AND e \<noteq> 0 \<Longrightarrow> 1 AND e = 1"
  by (simp add: one_and_eq)

lemma two_and_eq: "(2::int) AND e = 2 * ((e div 2) mod 2)"
  by (subst and_int.rec) (simp add: one_and_eq)

lemma label_and_neg: "(2::int) AND e \<noteq> 0 \<Longrightarrow> 2 AND e = 2"
  unfolding two_and_eq by presburger

text \<open>A label that is POS or NEG is a fixed point of every AND that does not give
  NEITHER.\<close>

lemma label_narrow_fixed:
  assumes "l = LAB_POS \<or> l = LAB_NEG" and "l AND e \<noteq> LAB_NEITHER"
  shows "l AND e = l"
  using assms label_and_pos[of e] label_and_neg[of e] by (auto simp: Label_defs)

text \<open>The two \<^verbatim>\<open>ApplyPostponed\<close> functions, \<^verbatim>\<open>ApplySummaryResult\<close> and \<^verbatim>\<open>Postprocess\<close> change a
  label by AND only, and fail their assertion when the AND is NEITHER.\<close>

lemma QPostponed_ApplyPostponed_label:
  "QPostponed_ApplyPostponed param p other =
     (if p_label p AND p_label other = LAB_NEITHER
      then Inl (Assertion_failed ''Conflicting labels?'')
      else Inr (p\<lparr>p_label := p_label p AND p_label other,
                  p_moment_info := MomentInfo_Add (p_moment_info p) (p_moment_info other)\<rparr>))"
  by (simp add: QPostponed_ApplyPostponed_def Let_def)

lemma QResult_ApplyPostponed_label:
  "QResult_ApplyPostponed param r postponed q = Inr r'
     \<Longrightarrow> r_label r' = r_label r AND p_label postponed \<and> r_label r' \<noteq> LAB_NEITHER"
  "r_label r AND p_label postponed = LAB_NEITHER
     \<Longrightarrow> QResult_ApplyPostponed param r postponed q
           = Inl (Assertion_failed ''label != LAB_NEITHER'')"
  by (auto simp: QResult_ApplyPostponed_def Let_def split: if_splits)

lemma QResult_ApplyPostponed_keeps_narrowed:
  assumes "r_label r = LAB_POS \<or> r_label r = LAB_NEG"
      and "QResult_ApplyPostponed param r postponed q = Inr r'"
  shows "r_label r' = r_label r"
  using QResult_ApplyPostponed_label(1)[OF assms(2)] label_narrow_fixed[OF assms(1)]
  by simp

lemma ApplySummaryResult_label:
  "ApplySummaryResult param s other = Inr s'
     \<Longrightarrow> s_label s' = s_label s AND s_label other \<and> s_label s' \<noteq> LAB_NEITHER"
  by (auto simp: ApplySummaryResult_def Let_def split: if_splits)

lemma QResult_Postprocess_label:
  "QResult_Postprocess param r q = Inr r'
     \<Longrightarrow> (r_label r' = r_label r \<or> r_label r' = r_label r AND LAB_POS
          \<or> r_label r' = r_label r AND LAB_NEG) \<and> r_label r' \<noteq> LAB_NEITHER"
  by (auto simp: QResult_Postprocess_def Let_def split: if_splits)

text \<open>
  Claim C6. Every operation that applies new evidence to a label should change it by
  bitwise AND only, so that a label narrowed to POS or NEG never changes again, and an AND
  that gives NEITHER should fail an assertion.

  The dominance branches of ConsiderQueryTermination assign the postponed label instead.
  With a postponed label NEG, a summary labelled EITHER with \<open>density_pos = [2, 3]\<close> and
  \<open>density_neg = [0, 1]\<close>, constants and priors \<open>[1, 1]\<close> and \<open>[1/2, 1/2]\<close>, the positive
  inequality holds (\<open>1 > 1/2\<close>): the function returns false without failing any assertion
  and the postponed label is POS, while \<open>NEG AND POS\<close> is NEITHER.
\<close>

theorem ConsiderQueryTermination_overwrites_label:
  "ConsiderQueryTermination (example_param 1 1) (example_node 0 1) (example_summary LAB_EITHER)
       example_global (example_postponed LAB_NEG)
     = Inr (False, example_postponed LAB_POS)
   \<and> p_label (example_postponed LAB_NEG) = LAB_NEG
   \<and> p_label (example_postponed LAB_NEG) AND LAB_POS = LAB_NEITHER
   \<and> LAB_POS \<noteq> LAB_NEG"
  by (simp add: ConsiderQueryTermination_def example_defs Label_defs)

subsection \<open>QSummaryResult::ApplyPostponed\<close>

text \<open>
  Claim C10. Given a QPostponed with label EITHER and both moment infos empty,
  \<^verbatim>\<open>QSummaryResult::ApplyPostponed\<close> leaves the summary as it was and returns
  \<^verbatim>\<open>change_made\<close> without any branch having assigned it (\<open>None\<close>). Given a QPostponed with
  another label or a non-empty moment info it returns true, provided its assertion holds,
  that is, provided a label other than EITHER shares a bit with the summary's label;
  otherwise the assertion fails.
\<close>

theorem QSummaryResult_ApplyPostponed_change_made:
  "(p_label postponed = LAB_EITHER \<and> count (p_moment_info_pos postponed) = 0
      \<and> count (p_moment_info_neg postponed) = 0
      \<longrightarrow> QSummaryResult_ApplyPostponed param s postponed q_node = Inr (s, None))
   \<and> (\<not> (p_label postponed = LAB_EITHER \<and> count (p_moment_info_pos postponed) = 0
           \<and> count (p_moment_info_neg postponed) = 0)
      \<and> (p_label postponed \<noteq> LAB_EITHER \<longrightarrow> s_label s AND p_label postponed \<noteq> LAB_NEITHER)
      \<longrightarrow> (\<exists>s'. QSummaryResult_ApplyPostponed param s postponed q_node = Inr (s', Some True)))
   \<and> (p_label postponed \<noteq> LAB_EITHER \<and> s_label s AND p_label postponed = LAB_NEITHER
      \<longrightarrow> (\<exists>e. QSummaryResult_ApplyPostponed param s postponed q_node = Inl e))"
  by (auto simp: QSummaryResult_ApplyPostponed_def ComputeKernelSumRange_def is_empty_def
        Let_def split: sum.splits prod.splits)

theorem QSummaryResult_ApplyPostponed_change_made_witness:
  "QSummaryResult_ApplyPostponed (example_param 1 1) (example_summary LAB_EITHER)
       (example_postponed LAB_EITHER) (example_node 0 1)
     = Inr (example_summary LAB_EITHER, None)
   \<and> (\<exists>s'. QSummaryResult_ApplyPostponed (example_param 1 1) (example_summary LAB_EITHER)
              (example_postponed LAB_POS) (example_node 0 1) = Inr (s', Some True))"
proof -
  have a: "p_label (example_postponed LAB_EITHER) = LAB_EITHER
           \<and> count (p_moment_info_pos (example_postponed LAB_EITHER)) = 0
           \<and> count (p_moment_info_neg (example_postponed LAB_EITHER)) = 0"
    by (simp add: example_defs)
  have b: "\<not> (p_label (example_postponed LAB_POS) = LAB_EITHER
              \<and> count (p_moment_info_pos (example_postponed LAB_POS)) = 0
              \<and> count (p_moment_info_neg (example_postponed LAB_POS)) = 0)
           \<and> (p_label (example_postponed LAB_POS) \<noteq> LAB_EITHER \<longrightarrow>
                s_label (example_summary LAB_EITHER) AND p_label (example_postponed LAB_POS)
                  \<noteq> LAB_NEITHER)"
    by (simp add: example_defs Label_defs)
  from a QSummaryResult_ApplyPostponed_change_made [of "example_postponed LAB_EITHER"
      "example_param 1 1" "example_summary LAB_EITHER" "example_node 0 1"]
  have 1: "QSummaryResult_ApplyPostponed (example_param 1 1) (example_summary LAB_EITHER)
       (example_postponed LAB_EITHER) (example_node 0 1)
     = Inr (example_summary LAB_EITHER, None)"
    by blast
  from b QSummaryResult_ApplyPostponed_change_made [of "example_postponed LAB_POS"
      "example_param 1 1" "example_summary LAB_EITHER" "example_node 0 1"]
  have 2: "\<exists>s'. QSummaryResult_ApplyPostponed (example_param 1 1) (example_summary LAB_EITHER)
              (example_postponed LAB_POS) (example_node 0 1) = Inr (s', Some True)"
    by blast
  from 1 2 show ?thesis by blast
qed

subsection \<open>MomentInfo: kernel sums\<close>

lemma coordinate_distance_bounds:
  fixes x c l h :: real
  assumes "l \<le> x" "x \<le> h"
  shows "(max 0 (l - c) + max 0 (c - h))\<^sup>2 \<le> (x - c)\<^sup>2"
    and "(x - c)\<^sup>2 \<le> (max (c - l) (h - c))\<^sup>2"
proof -
  have "\<bar>max 0 (l - c) + max 0 (c - h)\<bar> \<le> \<bar>x - c\<bar>"
    using assms by (auto simp: max_def abs_if)
  then show "(max 0 (l - c) + max 0 (c - h))\<^sup>2 \<le> (x - c)\<^sup>2"
    by (simp only: abs_le_square_iff)
  have "\<bar>x - c\<bar> \<le> \<bar>max (c - l) (h - c)\<bar>"
    using assms by (auto simp: max_def abs_if)
  then show "(x - c)\<^sup>2 \<le> (max (c - l) (h - c))\<^sup>2"
    by (simp only: abs_le_square_iff)
qed

lemma MinDistanceSq_le:
  assumes "Contains b q" "length c = length b"
  shows "MinDistanceSq b c \<le> DistanceSqEuclidean q c"
proof -
  from assms have "list_all2 (\<lambda>r x. lo r \<le> x \<and> x \<le> hi r) b q" "length b = length c"
    by (simp_all add: Contains_def)
  then show ?thesis
    unfolding MinDistanceSq_def DistanceSqEuclidean_def
  proof (induction b q arbitrary: c rule: list_all2_induct)
    case Nil
    then show ?case by simp
  next
    case (Cons r b x q)
    then obtain c0 cs where c: "c = c0 # cs" "length b = length cs"
      by (cases c) auto
    with Cons.IH[of cs] coordinate_distance_bounds(1)[of "lo r" x "hi r" c0] Cons.hyps
    show ?case by (simp add: add_mono)
  qed
qed

lemma MaxDistanceSq_ge:
  assumes "Contains b q" "length c = length b"
  shows "DistanceSqEuclidean q c \<le> MaxDistanceSq b c"
proof -
  from assms have "list_all2 (\<lambda>r x. lo r \<le> x \<and> x \<le> hi r) b q" "length b = length c"
    by (simp_all add: Contains_def)
  then show ?thesis
    unfolding MaxDistanceSq_def DistanceSqEuclidean_def
  proof (induction b q arbitrary: c rule: list_all2_induct)
    case Nil
    then show ?case by simp
  next
    case (Cons r b x q)
    then obtain c0 cs where c: "c = c0 # cs" "length b = length cs"
      by (cases c) auto
    with Cons.IH[of cs] coordinate_distance_bounds(2)[of "lo r" x "hi r" c0] Cons.hyps
    show ?case by (simp add: add_mono)
  qed
qed

lemma DistanceSqEuclidean_expand:
  "length q = length c \<Longrightarrow>
     DistanceSqEuclidean q c = Dot q q - 2 * Dot q c + Dot c c"
  unfolding DistanceSqEuclidean_def Dot_def
  by (induction q c rule: list_induct2) (simp_all add: power2_eq_square algebra_simps)

lemma Dot_Scale_right: "Dot q (Scale a m) = a * Dot q m"
  unfolding Dot_def Scale_def
proof (induction q arbitrary: m)
  case Nil
  then show ?case by simp
next
  case (Cons x q)
  then show ?case by (cases m) (simp_all add: algebra_simps)
qed

lemma Dot_Scale_both: "Dot (Scale a m) (Scale a m) = a * a * Dot m m"
  unfolding Dot_def Scale_def
  by (induction m) (simp_all add: algebra_simps)

lemma DistanceSqEuclidean_centroid:
  assumes "length q = length m"
  shows "DistanceSqEuclidean q (Scale a m) = Dot q q - 2 * (a * Dot q m) + a * a * Dot m m"
proof -
  have "length q = length (Scale a m)"
    using assms by (simp add: Scale_def)
  then have "DistanceSqEuclidean q (Scale a m)
               = Dot q q - 2 * Dot q (Scale a m) + Dot (Scale a m) (Scale a m)"
    by (rule DistanceSqEuclidean_expand)
  also have "Dot (Scale a m) (Scale a m) = a * a * Dot m m"
    by (rule Dot_Scale_both)
  also have "Dot q (Scale a m) = a * Dot q m"
    by (rule Dot_Scale_right)
  finally show ?thesis .
qed

text \<open>At the squared distance between the query point and the centroid, the closed form
  over a distance is the closed form over the point.\<close>

lemma ComputeKernelSum_dist_centroid:
  assumes "count m > 0" "length (mass m) = length q"
  shows "ComputeKernelSum_dist param m
           (DistanceSqEuclidean q (Scale (1 / of_int (count m)) (mass m)))
           (Dot (mass m) (mass m) / of_int (count m) / of_int (count m))
         = ComputeKernelSum param m q"
proof -
  define n :: real where "n = of_int (count m)"
  have n: "n \<noteq> 0" using assms(1) by (simp add: n_def)
  have d: "DistanceSqEuclidean q (Scale (1 / n) (mass m))
             = Dot q q - 2 * ((1 / n) * Dot q (mass m)) + (1 / n) * (1 / n) * Dot (mass m) (mass m)"
    by (rule DistanceSqEuclidean_centroid) (simp add: assms(2))
  have "(DistanceSqEuclidean q (Scale (1 / n) (mass m)) - Dot (mass m) (mass m) / n / n) * n
        = n * Dot q q - 2 * Dot q (mass m)"
    unfolding d using n by (simp add: field_simps)
  then show ?thesis
    by (simp add: ComputeKernelSum_dist_def ComputeKernelSum_def Let_def n_def)
qed

lemma ComputeKernelSum_dist_antimono:
  assumes "count m > 0" "0 \<le> inv_bandwidth_sq (kernel param)" "d1 \<le> d2"
  shows "ComputeKernelSum_dist param m d2 c \<le> ComputeKernelSum_dist param m d1 c"
proof -
  have "(d1 - c) * of_int (count m) \<le> (d2 - c) * of_int (count m)"
    using assms(1,3) by (simp add: mult_right_mono)
  then have "((d1 - c) * of_int (count m) + sumsq m) * inv_bandwidth_sq (kernel param)
             \<le> ((d2 - c) * of_int (count m) + sumsq m) * inv_bandwidth_sq (kernel param)"
    using assms(2) by (simp add: mult_right_mono)
  then show ?thesis
    by (simp add: ComputeKernelSum_dist_def Let_def)
qed

text \<open>In exact arithmetic the interval contains the kernel sum of every point of the
  Bound.\<close>

lemma ComputeKernelSumRange_exact_contains:
  assumes "count m > 0"
      and "Contains query_bound q"
      and "length (mass m) = length q"
      and "kernel param = EpanKernel_Init h" and "h \<noteq> 0"
  shows "\<exists>r. ComputeKernelSumRange param m query_bound = Inr r
           \<and> lo r = ComputeKernelSum_dist param m
                      (MaxDistanceSq query_bound (Scale (1 / of_int (count m)) (mass m)))
                      (Dot (mass m) (mass m) / of_int (count m) / of_int (count m))
           \<and> hi r = ComputeKernelSum_dist param m
                      (MinDistanceSq query_bound (Scale (1 / of_int (count m)) (mass m)))
                      (Dot (mass m) (mass m) / of_int (count m) / of_int (count m))
           \<and> lo r \<le> ComputeKernelSum param m q
           \<and> ComputeKernelSum param m q \<le> hi r"
proof -
  let ?c = "Scale (1 / of_int (count m)) (mass m)"
  let ?cc = "Dot (mass m) (mass m) / of_int (count m) / of_int (count m)"
  have ibw: "0 \<le> inv_bandwidth_sq (kernel param)"
    using assms(4) by (simp add: EpanKernel_Init_def)
  have len: "length ?c = length query_bound"
    using assms(2,3) by (simp add: Scale_def Contains_def)
  have exact: "ComputeKernelSum_dist param m (DistanceSqEuclidean q ?c) ?cc
                 = ComputeKernelSum param m q"
    by (rule ComputeKernelSum_dist_centroid[OF assms(1,3)])
  have lower: "ComputeKernelSum_dist param m (MaxDistanceSq query_bound ?c) ?cc
                 \<le> ComputeKernelSum param m q"
    using ComputeKernelSum_dist_antimono[OF assms(1) ibw MaxDistanceSq_ge[OF assms(2) len], of ?cc]
    by (simp only: exact)
  have upper: "ComputeKernelSum param m q
                 \<le> ComputeKernelSum_dist param m (MinDistanceSq query_bound ?c) ?cc"
    using ComputeKernelSum_dist_antimono[OF assms(1) ibw MinDistanceSq_le[OF assms(2) len], of ?cc]
    by (simp only: exact)
  show ?thesis
    using assms(1) lower upper by (simp add: ComputeKernelSumRange_def Let_def)
qed

text \<open>With the identity for \<open>fl\<close> the functions with explicit rounding are the functions in
  exact arithmetic.\<close>

lemma foldl_add_sum_list:
  fixes f :: "'a \<Rightarrow> 'b \<Rightarrow> real"
  shows "foldl (\<lambda>acc (a, b). acc + f a b) s xs = s + sum_list (map (\<lambda>(a, b). f a b) xs)"
  by (induction xs arbitrary: s) (auto simp: algebra_simps)

lemma Dot_fl_exact: "Dot_fl (\<lambda>x. x) x y = Dot x y"
  by (simp add: Dot_fl_def Dot_def foldl_add_sum_list)

lemma Scale_fl_exact: "Scale_fl (\<lambda>x. x) a x = Scale a x"
  by (simp add: Scale_fl_def Scale_def)

lemma AddTo_fl_exact: "AddTo_fl (\<lambda>x. x) x y = AddTo x y"
  by (simp add: AddTo_fl_def AddTo_def)

lemma MaxDistanceSq_fl_exact: "MaxDistanceSq_fl (\<lambda>x. x) b p = MaxDistanceSq b p"
  by (simp add: MaxDistanceSq_fl_def MaxDistanceSq_def Let_def power2_eq_square
      foldl_add_sum_list)

lemma MinDistanceSq_fl_exact: "MinDistanceSq_fl (\<lambda>x. x) b p = MinDistanceSq b p"
  by (simp add: MinDistanceSq_fl_def MinDistanceSq_def Let_def power2_eq_square
      foldl_add_sum_list)

lemma ComputeKernelSum_fl_exact:
  "ComputeKernelSum_fl (\<lambda>x. x) param m q = ComputeKernelSum param m q"
  by (simp add: ComputeKernelSum_fl_def ComputeKernelSum_def Dot_fl_exact Let_def)

lemma ComputeKernelSum_dist_fl_exact:
  "ComputeKernelSum_dist_fl (\<lambda>x. x) param m d c = ComputeKernelSum_dist param m d c"
  by (simp add: ComputeKernelSum_dist_fl_def ComputeKernelSum_dist_def Let_def)

lemma ComputeKernelSumRange_fl_exact:
  "ComputeKernelSumRange_fl (\<lambda>x. x) param m b = ComputeKernelSumRange param m b"
  by (simp add: ComputeKernelSumRange_fl_def ComputeKernelSumRange_def Dot_fl_exact
      Scale_fl_exact MaxDistanceSq_fl_exact MinDistanceSq_fl_exact
      ComputeKernelSum_dist_fl_exact Let_def)

text \<open>Evaluating the rounding on numerals, and the roundings that occur when the range and
  the kernel sum of \<open>example_three_points\<close> are computed for the box \<open>[1, 2]\<close> and the
  point 1.\<close>

lemma binary_exponent_numeral:
  "binary_exponent (numeral k) x =
     (if 2 \<le> x then binary_exponent (pred_numeral k) (x / 2) + 1
      else if x < 1 then binary_exponent (pred_numeral k) (x * 2) - 1
      else 0)"
  by (simp add: numeral_eq_Suc)

lemmas double_round_eval = double_round_def double_ulp_def binary_exponent_numeral
  round_half_even_def Let_def

lemma range_roundings:
  "double_round 3 = 3"
  "double_round 1 = 1"
  "double_round 2 = 2"
  "double_round (3 / 2) = 3 / 2"
  "double_round (1 / 3) = 6004799503160661 / 18014398509481984"
  "double_round (2001599834386887 / 18014398509481984) = 2001599834386887 / 18014398509481984"
  "double_round (6004799503160661 / 18014398509481984) = 6004799503160661 / 18014398509481984"
  "double_round (- (12009599006321323 / 18014398509481984)) = - (3002399751580331 / 4503599627370496)"
  "double_round (30023997515803307 / 18014398509481984) = 7505999378950827 / 4503599627370496"
  "double_round (56340026676810200626075283983929 / 20282409603651670423947251286016) = 6254999482459023 / 2251799813685248"
  "double_round (6254999482459023 / 2251799813685248) = 6254999482459023 / 2251799813685248"
  "double_round (48038396025285297 / 18014398509481984) = 3002399751580331 / 1125899906842624"
  "double_round (9007199254740993 / 1125899906842624) = 8"
  "double_round (17 / 2) = 17 / 2"
  "double_round (- (17 / 2)) = - (17 / 2)"
  "double_round (- (11 / 2)) = - (11 / 2)"
  "double_round (12009599006321323 / 18014398509481984) = 3002399751580331 / 4503599627370496"
  "double_round (- (30023997515803307 / 18014398509481984)) = - (7505999378950827 / 4503599627370496)"
  "double_round (3002399751580331 / 4503599627370496) = 3002399751580331 / 4503599627370496"
  "double_round (9014404268289633301131946069561 / 20282409603651670423947251286016) = 4003199668773775 / 9007199254740992"
  "double_round (4003199668773775 / 9007199254740992) = 4003199668773775 / 9007199254740992"
  "double_round (6004799503160663 / 18014398509481984) = 6004799503160663 / 18014398509481984"
  "double_round (18014398509481989 / 18014398509481984) = 4503599627370497 / 4503599627370496"
  "double_round (6755399441055745 / 4503599627370496) = 6755399441055745 / 4503599627370496"
  "double_round (- (6755399441055745 / 4503599627370496)) = - (6755399441055745 / 4503599627370496)"
  "double_round (6755399441055743 / 4503599627370496) = 6755399441055743 / 4503599627370496"
  by (simp_all add: double_round_eval)

text \<open>
  Claim C5. For a MomentInfo with \<open>count > 0\<close>, a query Bound and a query point \<open>q\<close> inside
  it, the exact value \<open>ComputeKernelSum param q\<close> should lie in the interval that
  ComputeKernelSumRange returns.

  In the double arithmetic of the code it need not. For the MomentInfo of the three
  points 0, 1/2, 1/2 (\<open>count = 3\<close>, \<open>mass = 1\<close>, \<open>sumsq = 1/2\<close>), bandwidth 1, the query
  Bound \<open>[1, 2]\<close> and the query point 1 inside it, ComputeKernelSum gives \<open>3/2\<close> and
  ComputeKernelSumRange gives \<open>hi = 3/2 - 2^-52\<close>: the centroid \<open>1/3\<close> and the products
  and differences formed from it are rounded, and the two closed forms round differently.
\<close>

theorem ComputeKernelSumRange_double_excludes_ComputeKernelSum:
  "count example_three_points > 0
   \<and> Contains [\<lparr>lo = 1, hi = 2\<rparr>] [1]
   \<and> ComputeKernelSumRange_fl double_round (example_param 1 1) example_three_points
        [\<lparr>lo = 1, hi = 2\<rparr>]
      = Inr \<lparr>lo = - (11 / 2), hi = 6755399441055743 / 4503599627370496\<rparr>
   \<and> ComputeKernelSum_fl double_round (example_param 1 1) example_three_points [1] = 3 / 2
   \<and> \<not> (3 / 2 \<le> (6755399441055743 / 4503599627370496 :: real))"
  by (simp add: ComputeKernelSumRange_fl_def ComputeKernelSum_dist_fl_def ComputeKernelSum_fl_def
      Dot_fl_def Scale_fl_def MaxDistanceSq_fl_def MinDistanceSq_fl_def Contains_def
      example_three_points_def example_param_def EpanKernel_Init_def Let_def range_roundings)

text \<open>
  Claim C5, amended. For a MomentInfo with \<open>count > 0\<close> (its \<open>mass\<close> having the dimension of
  the query point), a kernel initialised with a bandwidth other than zero, a query Bound
  and a query point \<open>q\<close> inside that Bound: whatever the rounding, ComputeKernelSumRange
  returns the interval whose \<open>lo\<close> is the closed form at the maximum and whose \<open>hi\<close> is the
  closed form at the minimum squared distance between the Bound and the centroid
  \<open>mass / count\<close>; and in exact arithmetic \<open>ComputeKernelSum param q\<close> lies in that
  interval.
\<close>

theorem ComputeKernelSumRange_fl_endpoints_and_exact_containment:
  assumes "count m > 0"
      and "Contains query_bound q"
      and "length (mass m) = length q"
      and "kernel param = EpanKernel_Init h" and "h \<noteq> 0"
  shows "(\<exists>r. ComputeKernelSumRange_fl fl param m query_bound = Inr r
            \<and> lo r = ComputeKernelSum_dist_fl fl param m
                       (MaxDistanceSq_fl fl query_bound
                          (Scale_fl fl (fl (1 / fl (of_int (count m)))) (mass m)))
                       (fl (fl (Dot_fl fl (mass m) (mass m) / fl (of_int (count m)))
                              / fl (of_int (count m))))
            \<and> hi r = ComputeKernelSum_dist_fl fl param m
                       (MinDistanceSq_fl fl query_bound
                          (Scale_fl fl (fl (1 / fl (of_int (count m)))) (mass m)))
                       (fl (fl (Dot_fl fl (mass m) (mass m) / fl (of_int (count m)))
                              / fl (of_int (count m)))))
       \<and> (\<exists>r. ComputeKernelSumRange_fl (\<lambda>x. x) param m query_bound = Inr r
            \<and> lo r \<le> ComputeKernelSum_fl (\<lambda>x. x) param m q
            \<and> ComputeKernelSum_fl (\<lambda>x. x) param m q \<le> hi r)"
proof -
  have "\<exists>r. ComputeKernelSumRange_fl fl param m query_bound = Inr r
            \<and> lo r = ComputeKernelSum_dist_fl fl param m
                       (MaxDistanceSq_fl fl query_bound
                          (Scale_fl fl (fl (1 / fl (of_int (count m)))) (mass m)))
                       (fl (fl (Dot_fl fl (mass m) (mass m) / fl (of_int (count m)))
                              / fl (of_int (count m))))
            \<and> hi r = ComputeKernelSum_dist_fl fl param m
                       (MinDistanceSq_fl fl query_bound
                          (Scale_fl fl (fl (1 / fl (of_int (count m)))) (mass m)))
                       (fl (fl (Dot_fl fl (mass m) (mass m) / fl (of_int (count m)))
                              / fl (of_int (count m))))"
    using assms(1) by (simp add: ComputeKernelSumRange_fl_def Let_def)
  moreover have "\<exists>r. ComputeKernelSumRange_fl (\<lambda>x. x) param m query_bound = Inr r
            \<and> lo r \<le> ComputeKernelSum_fl (\<lambda>x. x) param m q
            \<and> ComputeKernelSum_fl (\<lambda>x. x) param m q \<le> hi r"
    using ComputeKernelSumRange_exact_contains[OF assms]
    unfolding ComputeKernelSumRange_fl_exact ComputeKernelSum_fl_exact by blast
  ultimately show ?thesis by blast
qed

theorem ComputeKernelSumRange_fl_endpoints_and_exact_containment_witness:
  "\<exists>r. ComputeKernelSumRange_fl (\<lambda>x. x) (example_param 1 1) example_three_points
          [\<lparr>lo = 1, hi = 2\<rparr>] = Inr r
       \<and> lo r \<le> ComputeKernelSum_fl (\<lambda>x. x) (example_param 1 1) example_three_points [1]
       \<and> ComputeKernelSum_fl (\<lambda>x. x) (example_param 1 1) example_three_points [1] \<le> hi r"
proof -
  have h1: "count example_three_points > 0"
    by (simp add: example_three_points_def)
  have h2: "Contains [\<lparr>lo = 1, hi = 2\<rparr>] [1]"
    by (simp add: Contains_def)
  have h3: "length (mass example_three_points) = length [1 :: real]"
    by (simp add: example_three_points_def)
  have h4: "kernel (example_param 1 1) = EpanKernel_Init 1"
    by (simp add: example_defs)
  have h5: "(1::real) \<noteq> 0"
    by simp
  from ComputeKernelSumRange_fl_endpoints_and_exact_containment [OF h1 h2 h3 h4 h5, of double_round]
  show ?thesis by blast
qed

text \<open>
  Claim C8. On an empty MomentInfo ComputeKernelSumRange should fail with an explicit error
  before any arithmetic that divides by \<open>count\<close>.

  On the empty MomentInfo the function does end in its failed assertion \<open>count != 0\<close>, but
  its first statement has by then divided by \<open>count = 0\<close> twice
  (\<^verbatim>\<open>la::Dot(mass, mass) / count / count\<close>): the guard comes after those divisions.
\<close>

theorem ComputeKernelSumRange_divides_before_guard:
  "ComputeKernelSumRange (example_param 1 1) example_empty_info (bound (example_node 0 1))
     = Inl (Assertion_failed ''count != 0'')
   \<and> ComputeKernelSumRange_steps example_empty_info
     = [Divide_by 0, Divide_by 0, Assert_nonzero 0]"
  by (simp add: ComputeKernelSumRange_def ComputeKernelSumRange_steps_def example_defs)

subsection \<open>MomentInfo: merge\<close>

lemma map2_add_zero: "length xs = d \<Longrightarrow> map2 (+) xs (replicate d (0::real)) = xs"
  by (induction xs arbitrary: d) auto

lemma map2_add_zero_left: "length xs = d \<Longrightarrow> map2 (+) (replicate d (0::real)) xs = xs"
  by (induction xs arbitrary: d) auto

lemma map2_add_commute: "map2 (+) xs ys = map2 (+) ys (xs :: real list)"
  by (induction xs arbitrary: ys) (case_tac ys; simp)+

lemma map2_add_assoc:
  "map2 (+) (map2 (+) xs ys) zs = map2 (+) xs (map2 (+) ys (zs :: real list))"
proof (induction xs arbitrary: ys zs)
  case Nil
  then show ?case by simp
next
  case (Cons x xs)
  then show ?case by (cases ys; cases zs) simp_all
qed

lemma map2_add_right_commute:
  "map2 (+) (map2 (+) xs ys) zs = map2 (+) (map2 (+) xs zs) (ys :: real list)"
  by (metis map2_add_assoc map2_add_commute)

text \<open>The invariant holds after \<^verbatim>\<open>Reset\<close>, and adding a point (as \<^verbatim>\<open>NbcStat::Accumulate\<close>
  does) or another MomentInfo keeps it.\<close>

lemma MomentInfo_inv_Reset: "MomentInfo_inv (length (mass m)) (MomentInfo_Reset m)"
  by (simp add: MomentInfo_inv_def MomentInfo_Reset_def map_replicate_const)

lemma MomentInfo_inv_Add_point:
  "MomentInfo_inv d m \<Longrightarrow> length p = d \<Longrightarrow> MomentInfo_inv d (MomentInfo_Add3 m 1 p (Dot p p))"
  by (auto simp: MomentInfo_inv_def MomentInfo_Add3_def AddTo_def)

lemma MomentInfo_inv_Add:
  "MomentInfo_inv d a \<Longrightarrow> MomentInfo_inv d b \<Longrightarrow> MomentInfo_inv d (MomentInfo_Add a b)"
  by (auto simp: MomentInfo_inv_def MomentInfo_Add_def MomentInfo_Add3_def AddTo_def)

lemma MomentInfo_Add_right_commute:
  "MomentInfo_Add (MomentInfo_Add m x) y = MomentInfo_Add (MomentInfo_Add m y) x"
  by (simp add: MomentInfo_Add_def MomentInfo_Add3_def AddTo_def map2_add_right_commute)

lemma MomentInfo_Add_fold_mset:
  assumes "mset xs = mset ys"
  shows "fold (\<lambda>other m. MomentInfo_Add m other) xs a
       = fold (\<lambda>other m. MomentInfo_Add m other) ys a"
proof -
  have "fold (\<lambda>other m. MomentInfo_Add m other) xs = fold (\<lambda>other m. MomentInfo_Add m other) ys"
    by (rule fold_multiset_equiv) (auto simp: fun_eq_iff MomentInfo_Add_right_commute assms)
  then show ?thesis by simp
qed

lemma MomentInfo_Add_commute:
  assumes "MomentInfo_inv d a" "MomentInfo_inv d b"
  shows "MomentInfo_Add a b = MomentInfo_Add b a"
  using assms
  by (cases a; cases b)
     (auto simp: MomentInfo_inv_def MomentInfo_Add_def MomentInfo_Add3_def AddTo_def
        map2_add_zero map2_add_zero_left map2_add_commute)

lemma MomentInfo_Add_assoc:
  assumes "MomentInfo_inv d a" "MomentInfo_inv d b" "MomentInfo_inv d c"
  shows "MomentInfo_Add (MomentInfo_Add a b) c = MomentInfo_Add a (MomentInfo_Add b c)"
  using assms
  by (cases a; cases b; cases c)
     (auto simp: MomentInfo_inv_def MomentInfo_Add_def MomentInfo_Add3_def AddTo_def
        map2_add_zero map2_add_zero_left map2_add_assoc)

lemma MomentInfo_Add_empty: "count e = 0 \<Longrightarrow> MomentInfo_Add a e = a"
  by (simp add: MomentInfo_Add_def MomentInfo_Add3_def)

text \<open>The merge with explicit rounding: exact arithmetic is the merge above; in any
  arithmetic two values of that arithmetic commute, and the count of a merged collection
  is the sum of the counts.\<close>

lemma MomentInfo_Add_fl_exact: "MomentInfo_Add_fl (\<lambda>x. x) a b = MomentInfo_Add a b"
  by (simp add: MomentInfo_Add_fl_def MomentInfo_Add3_fl_def MomentInfo_Add_def
      MomentInfo_Add3_def AddTo_fl_exact)

lemma MomentInfo_Add_all_exact:
  "MomentInfo_Add_all (\<lambda>x. x) t xs = fold (\<lambda>other m. MomentInfo_Add m other) xs t"
proof -
  have "MomentInfo_Add_fl (\<lambda>x. x) = MomentInfo_Add"
    by (simp add: fun_eq_iff MomentInfo_Add_fl_exact)
  then show ?thesis
    by (simp add: MomentInfo_Add_all_def foldl_conv_fold)
qed

lemma map2_fl_add_commute:
  "map2 (\<lambda>b a. fl (b + a)) xs ys = map2 (\<lambda>b a. fl (b + a)) ys (xs :: real list)"
proof (induction xs arbitrary: ys)
  case Nil
  then show ?case by simp
next
  case (Cons x xs)
  then show ?case by (cases ys) (simp_all add: add.commute)
qed

lemma map2_fl_add_zero_left:
  "length xs = d \<Longrightarrow> list_all (\<lambda>x. fl x = x) xs
     \<Longrightarrow> map2 (\<lambda>b a. fl (b + a)) (replicate d (0::real)) xs = xs"
  by (induction xs arbitrary: d) auto

lemma MomentInfo_Add_fl_commute:
  assumes "MomentInfo_inv d a" "MomentInfo_inv d b"
      and "MomentInfo_rounded fl a" "MomentInfo_rounded fl b"
  shows "MomentInfo_Add_fl fl a b = MomentInfo_Add_fl fl b a"
proof (cases "count a = 0"; cases "count b = 0")
  assume "count a = 0" "count b = 0"
  with assms(1,2) show ?thesis
    by (cases a; cases b)
       (simp add: MomentInfo_inv_def MomentInfo_Add_fl_def MomentInfo_Add3_fl_def)
next
  assume "count a = 0" "count b \<noteq> 0"
  with assms(1,2,4) show ?thesis
    by (cases a; cases b)
       (simp add: MomentInfo_inv_def MomentInfo_rounded_def MomentInfo_Add_fl_def
          MomentInfo_Add3_fl_def AddTo_fl_def map2_fl_add_zero_left)
next
  assume "count a \<noteq> 0" "count b = 0"
  with assms(1,2,3) show ?thesis
    by (cases a; cases b)
       (simp add: MomentInfo_inv_def MomentInfo_rounded_def MomentInfo_Add_fl_def
          MomentInfo_Add3_fl_def AddTo_fl_def map2_fl_add_zero_left)
next
  assume "count a \<noteq> 0" "count b \<noteq> 0"
  then show ?thesis
    by (simp add: MomentInfo_Add_fl_def MomentInfo_Add3_fl_def AddTo_fl_def
        map2_fl_add_commute[of fl "mass a" "mass b"] add.commute)
qed

lemma MomentInfo_Add_fl_empty: "count e = 0 \<Longrightarrow> MomentInfo_Add_fl fl t e = t"
  by (simp add: MomentInfo_Add_fl_def MomentInfo_Add3_fl_def)

lemma count_MomentInfo_Add_all:
  "count (MomentInfo_Add_all fl t xs) = count t + sum_list (map count xs)"
  unfolding MomentInfo_Add_all_def
  by (induction xs arbitrary: t) (simp_all add: MomentInfo_Add_fl_def MomentInfo_Add3_fl_def)

lemma count_MomentInfo_Add_all_mset:
  assumes "mset xs = mset ys"
  shows "count (MomentInfo_Add_all fl t xs) = count (MomentInfo_Add_all fl t ys)"
proof -
  have "sum_list (map count xs) = sum_mset (image_mset count (mset xs))"
    by (metis mset_map sum_mset_sum_list)
  also have "\<dots> = sum_list (map count ys)"
    unfolding assms by (metis mset_map sum_mset_sum_list)
  finally show ?thesis
    by (simp add: count_MomentInfo_Add_all)
qed

text \<open>The roundings that occur when a point at 1 and two points at \<open>2^-53\<close> are merged.\<close>

lemma merge_roundings:
  "double_round (9007199254740993 / 9007199254740992) = 1"
  "double_round (1 / 4503599627370496) = 1 / 4503599627370496"
  "double_round (4503599627370497 / 4503599627370496) = 4503599627370497 / 4503599627370496"
  "double_round (81129638414606681695789005144065 / 81129638414606681695789005144064) = 1"
  "double_round (1 / 40564819207303340847894502572032) = 1 / 40564819207303340847894502572032"
  "double_round (40564819207303340847894502572033 / 40564819207303340847894502572032) = 1"
  "double_round 1 = 1"
  "double_round (1 / 9007199254740992) = 1 / 9007199254740992"
  "double_round (1 / 81129638414606681695789005144064) = 1 / 81129638414606681695789005144064"
  "double_round 0 = 0"
  by (simp_all add: double_round_eval)

text \<open>
  Claim C7. \<^verbatim>\<open>MomentInfo::Add\<close> should be commutative and associative, the result of merging
  a collection should not depend on the order, and an empty MomentInfo should be absorbed.

  In the double arithmetic of the code, associativity and order independence fail. For the
  moment information \<open>P\<close> of a point at 1 and \<open>T\<close> of a point at \<open>2^-53\<close> (both satisfy the
  data-model invariant and hold doubles), \<open>(P + T) + T\<close> has mass 1 and \<open>P + (T + T)\<close> has
  mass \<open>1 + 2^-52\<close>; merged into the empty MomentInfo, the collection in the order
  \<open>P, T, T\<close> gives mass 1 and in the order \<open>T, T, P\<close> mass \<open>1 + 2^-52\<close>.
\<close>

theorem MomentInfo_Add_double_order_dependent:
  "MomentInfo_inv 1 (example_point_info 1) \<and> MomentInfo_inv 1 example_tiny_info
   \<and> MomentInfo_rounded double_round (example_point_info 1)
   \<and> MomentInfo_rounded double_round example_tiny_info
   \<and> MomentInfo_Add_fl double_round
        (MomentInfo_Add_fl double_round (example_point_info 1) example_tiny_info)
        example_tiny_info
      = \<lparr>mass = [1], sumsq = 1, count = 3\<rparr>
   \<and> MomentInfo_Add_fl double_round (example_point_info 1)
        (MomentInfo_Add_fl double_round example_tiny_info example_tiny_info)
      = \<lparr>mass = [4503599627370497 / 4503599627370496], sumsq = 1, count = 3\<rparr>
   \<and> mset [example_point_info 1, example_tiny_info, example_tiny_info]
      = mset [example_tiny_info, example_tiny_info, example_point_info 1]
   \<and> MomentInfo_Add_all double_round example_empty_info
        [example_point_info 1, example_tiny_info, example_tiny_info]
      = \<lparr>mass = [1], sumsq = 1, count = 3\<rparr>
   \<and> MomentInfo_Add_all double_round example_empty_info
        [example_tiny_info, example_tiny_info, example_point_info 1]
      = \<lparr>mass = [4503599627370497 / 4503599627370496], sumsq = 1, count = 3\<rparr>
   \<and> (1::real) \<noteq> 4503599627370497 / 4503599627370496"
  by (simp add: MomentInfo_inv_def MomentInfo_rounded_def MomentInfo_Add_all_def
      MomentInfo_Add_fl_def MomentInfo_Add3_fl_def AddTo_fl_def example_tiny_info_def
      example_point_info_def example_empty_info_def merge_roundings)

text \<open>
  Claim C7, amended. On MomentInfo values that satisfy the data-model invariant for one
  dimension and hold values of the arithmetic in use, \<^verbatim>\<open>Add\<close> is commutative; adding a
  MomentInfo with \<open>count = 0\<close> leaves the target unchanged; and the count of a merged
  collection does not depend on its order (counts being integers that do not overflow).
  In exact arithmetic \<^verbatim>\<open>Add\<close> is also associative on values that satisfy the invariant, and
  the count, mass and sumsq of a merged collection do not depend on its order.
\<close>

theorem MomentInfo_Add_fl_merge_laws:
  "(MomentInfo_inv d a \<and> MomentInfo_inv d b
      \<and> MomentInfo_rounded fl a \<and> MomentInfo_rounded fl b
      \<longrightarrow> MomentInfo_Add_fl fl a b = MomentInfo_Add_fl fl b a)
   \<and> (count e = 0 \<longrightarrow> MomentInfo_Add_fl fl t e = t)
   \<and> (mset xs = mset ys
      \<longrightarrow> count (MomentInfo_Add_all fl t xs) = count (MomentInfo_Add_all fl t ys))
   \<and> (MomentInfo_inv d a \<and> MomentInfo_inv d b \<and> MomentInfo_inv d c
      \<longrightarrow> MomentInfo_Add_fl (\<lambda>x. x) (MomentInfo_Add_fl (\<lambda>x. x) a b) c
          = MomentInfo_Add_fl (\<lambda>x. x) a (MomentInfo_Add_fl (\<lambda>x. x) b c))
   \<and> (mset xs = mset ys
      \<longrightarrow> MomentInfo_Add_all (\<lambda>x. x) t xs = MomentInfo_Add_all (\<lambda>x. x) t ys)"
  using MomentInfo_Add_fl_commute[of d a b fl] MomentInfo_Add_fl_empty[of e fl t]
    count_MomentInfo_Add_all_mset[of xs ys fl t] MomentInfo_Add_assoc[of d a b c]
    MomentInfo_Add_fold_mset[of xs ys t]
  unfolding MomentInfo_Add_fl_exact MomentInfo_Add_all_exact
  by blast

theorem MomentInfo_Add_fl_merge_laws_witness:
  "MomentInfo_Add_fl double_round (example_point_info 1) example_tiny_info
     = MomentInfo_Add_fl double_round example_tiny_info (example_point_info 1)
   \<and> MomentInfo_Add_fl double_round (example_point_info 1) example_empty_info
     = example_point_info 1
   \<and> count (MomentInfo_Add_all double_round example_empty_info
        [example_point_info 1, example_tiny_info, example_tiny_info])
     = count (MomentInfo_Add_all double_round example_empty_info
        [example_tiny_info, example_tiny_info, example_point_info 1])"
proof -
  have i1: "MomentInfo_inv 1 (example_point_info 1) \<and> MomentInfo_inv 1 example_tiny_info"
    by (simp add: MomentInfo_inv_def example_point_info_def example_tiny_info_def)
  have r1: "MomentInfo_rounded double_round (example_point_info 1)
            \<and> MomentInfo_rounded double_round example_tiny_info"
    by (simp add: MomentInfo_rounded_def example_point_info_def example_tiny_info_def
        merge_roundings)
  have e: "count example_empty_info = 0"
    by (simp add: example_defs)
  have p: "mset [example_point_info 1, example_tiny_info, example_tiny_info]
             = mset [example_tiny_info, example_tiny_info, example_point_info 1]"
    by simp
  from i1 r1 e p
    MomentInfo_Add_fl_merge_laws [of 1 "example_point_info 1" example_tiny_info double_round
      example_empty_info "example_point_info 1"
      "[example_point_info 1, example_tiny_info, example_tiny_info]"
      "[example_tiny_info, example_tiny_info, example_point_info 1]" example_empty_info]
    MomentInfo_Add_fl_merge_laws [of 1 "example_point_info 1" example_tiny_info double_round
      example_empty_info example_empty_info
      "[example_point_info 1, example_tiny_info, example_tiny_info]"
      "[example_tiny_info, example_tiny_info, example_point_info 1]" example_empty_info]
  show ?thesis by blast
qed

end
